theory Spec2Isabelle
  imports Main "HOL-Library.Char_ord" "HOL-Library.List_Lexorder"
begin

section \<open>The transport engine consumed by the negotiator\<close>

text \<open>
  \<^verbatim>\<open>src/lib/webrtc.ts\<close> drives the platform's \<^verbatim>\<open>RTCPeerConnection\<close>. The manager reads
  \<^verbatim>\<open>signalingState\<close>, \<^verbatim>\<open>localDescription\<close> and \<^verbatim>\<open>remoteDescription\<close> and calls
  \<^verbatim>\<open>addTransceiver\<close>, \<^verbatim>\<open>addTrack\<close>, \<^verbatim>\<open>createOffer\<close>, \<^verbatim>\<open>createAnswer\<close>,
  \<^verbatim>\<open>setLocalDescription\<close>, \<^verbatim>\<open>setRemoteDescription\<close> and \<^verbatim>\<open>addIceCandidate\<close>. This section
  is a model of that interface: the offer/answer state machine of the platform, the log of
  the candidates the transport accepted and the transceivers it holds, each known by its
  direction. Every call may also be rejected by the platform for a reason of its own
  (malformed SDP, a malformed candidate); the first argument of each operation says so, and
  the caller takes it from the \<open>environment\<close> of the run. A rejected call is \<open>None\<close>:
  the promise rejects (or the call throws) and the connection is unchanged.

  Two more things are the platform's to decide, and the environment says them as well.
  When the platform applies a remote offer it creates a transceiver of direction
  \<^verbatim>\<open>recvonly\<close> for every media section of the offer that matches none of the transceivers
  it may use for it (one made by \<^verbatim>\<open>addTransceiver\<close> is not among these, so the first offer
  a connection receives adds one): \<open>unmatchedSections\<close> is their number. And \<^verbatim>\<open>addTrack\<close>
  either makes a transceiver of direction \<^verbatim>\<open>sendrecv\<close> or reuses one whose sender has no
  track and has never sent, to whose direction it adds sending: \<open>reuses\<close> is the position
  of the one it reuses.

  Identifiers are JavaScript strings compared with \<^verbatim>\<open><\<close>, the lexicographic order on code
  units; they are modelled as \<open>string\<close> with the lexicographic order on character codes.
\<close>

type_synonym peer_id = string
type_synonym track_id = string
type_synonym ice_candidate = string

datatype signaling_state =
  Stable | HaveLocalOffer | HaveRemoteOffer | HaveLocalPranswer | HaveRemotePranswer | Closed

datatype sdp_kind = OfferKind | AnswerKind

datatype direction = SendRecv | SendOnly | RecvOnly | Inactive

record session_description =
  sdpType :: sdp_kind
  sdpBody :: string

record rtc_connection =
  signalingState :: signaling_state
  pendingLocalDescription :: "session_description option"
  currentLocalDescription :: "session_description option"
  pendingRemoteDescription :: "session_description option"
  currentRemoteDescription :: "session_description option"
  transceivers :: "direction list"
  appliedCandidates :: "ice_candidate list"

datatype rtc_call =
  CreateOffer | CreateAnswer | SetLocalDescription | SetRemoteDescription
  | AddIceCandidate ice_candidate | ReplaceTrack | AddTrack

record environment =
  rejects :: "peer_id \<Rightarrow> rtc_call \<Rightarrow> bool"
  generated :: "peer_id \<Rightarrow> string"
  unmatchedSections :: "peer_id \<Rightarrow> nat"
  reuses :: "peer_id \<Rightarrow> nat option"

definition newRTCPeerConnection :: rtc_connection where
  "newRTCPeerConnection =
     \<lparr>signalingState = Stable,
      pendingLocalDescription = None, currentLocalDescription = None,
      pendingRemoteDescription = None, currentRemoteDescription = None,
      transceivers = [], appliedCandidates = []\<rparr>"

definition localDescription :: "rtc_connection \<Rightarrow> session_description option" where
  "localDescription c =
     (case pendingLocalDescription c of Some d \<Rightarrow> Some d | None \<Rightarrow> currentLocalDescription c)"

definition remoteDescription :: "rtc_connection \<Rightarrow> session_description option" where
  "remoteDescription c =
     (case pendingRemoteDescription c of Some d \<Rightarrow> Some d | None \<Rightarrow> currentRemoteDescription c)"

text \<open>\<^verbatim>\<open>addTransceiver('audio', { direction: 'sendrecv' })\<close>, the only call the manager makes.\<close>

definition addTransceiver :: "rtc_connection \<Rightarrow> rtc_connection" where
  "addTransceiver c = c\<lparr>transceivers := transceivers c @ [SendRecv]\<rparr>"

fun withSending :: "direction \<Rightarrow> direction" where
  "withSending RecvOnly = SendRecv"
| "withSending Inactive = SendOnly"
| "withSending d = d"

definition rtc_addTrack :: "bool \<Rightarrow> nat option \<Rightarrow> rtc_connection \<Rightarrow> rtc_connection option" where
  "rtc_addTrack rejected reused c =
     (if rejected \<or> signalingState c = Closed then None
      else case reused of
        Some i \<Rightarrow>
          (if i < length (transceivers c)
           then Some (c\<lparr>transceivers := (transceivers c)[i := withSending (transceivers c ! i)]\<rparr>)
           else Some (c\<lparr>transceivers := transceivers c @ [SendRecv]\<rparr>))
      | None \<Rightarrow> Some (c\<lparr>transceivers := transceivers c @ [SendRecv]\<rparr>))"

definition rtc_createOffer :: "bool \<Rightarrow> string \<Rightarrow> rtc_connection \<Rightarrow> session_description option" where
  "rtc_createOffer rejected body c =
     (if rejected \<or> (signalingState c \<noteq> Stable \<and> signalingState c \<noteq> HaveLocalOffer) then None
      else Some \<lparr>sdpType = OfferKind, sdpBody = body\<rparr>)"

definition rtc_createAnswer :: "bool \<Rightarrow> string \<Rightarrow> rtc_connection \<Rightarrow> session_description option" where
  "rtc_createAnswer rejected body c =
     (if rejected \<or> (signalingState c \<noteq> HaveRemoteOffer \<and> signalingState c \<noteq> HaveLocalPranswer)
      then None
      else Some \<lparr>sdpType = AnswerKind, sdpBody = body\<rparr>)"

definition rtc_setLocalDescription ::
  "bool \<Rightarrow> rtc_connection \<Rightarrow> session_description \<Rightarrow> rtc_connection option" where
  "rtc_setLocalDescription rejected c d =
     (if rejected then None
      else case sdpType d of
        OfferKind \<Rightarrow>
          (if signalingState c = Stable \<or> signalingState c = HaveLocalOffer
           then Some (c\<lparr>signalingState := HaveLocalOffer, pendingLocalDescription := Some d\<rparr>)
           else None)
      | AnswerKind \<Rightarrow>
          (if signalingState c = HaveRemoteOffer \<or> signalingState c = HaveLocalPranswer
           then Some (c\<lparr>signalingState := Stable,
                         currentLocalDescription := Some d,
                         currentRemoteDescription := pendingRemoteDescription c,
                         pendingLocalDescription := None,
                         pendingRemoteDescription := None\<rparr>)
           else None))"

text \<open>
  A remote offer that arrives in \<^verbatim>\<open>have-local-offer\<close> rolls the pending local offer back
  first (the platform's implicit rollback, on which perfect negotiation relies).
\<close>

definition rtc_setRemoteDescription ::
  "bool \<Rightarrow> nat \<Rightarrow> rtc_connection \<Rightarrow> session_description \<Rightarrow> rtc_connection option" where
  "rtc_setRemoteDescription rejected unmatched c d =
     (if rejected then None
      else case sdpType d of
        OfferKind \<Rightarrow>
          (if signalingState c = Stable \<or> signalingState c = HaveRemoteOffer
           then Some (c\<lparr>signalingState := HaveRemoteOffer, pendingRemoteDescription := Some d,
                         transceivers := transceivers c @ replicate unmatched RecvOnly\<rparr>)
           else if signalingState c = HaveLocalOffer
           then Some (c\<lparr>signalingState := HaveRemoteOffer,
                         pendingLocalDescription := None,
                         pendingRemoteDescription := Some d,
                         transceivers := transceivers c @ replicate unmatched RecvOnly\<rparr>)
           else None)
      | AnswerKind \<Rightarrow>
          (if signalingState c = HaveLocalOffer \<or> signalingState c = HaveRemotePranswer
           then Some (c\<lparr>signalingState := Stable,
                         currentRemoteDescription := Some d,
                         currentLocalDescription := pendingLocalDescription c,
                         pendingLocalDescription := None,
                         pendingRemoteDescription := None\<rparr>)
           else None))"

definition rtc_addIceCandidate ::
  "bool \<Rightarrow> rtc_connection \<Rightarrow> ice_candidate \<Rightarrow> rtc_connection option" where
  "rtc_addIceCandidate rejected c candidate =
     (if rejected \<or> signalingState c = Closed \<or> remoteDescription c = None then None
      else Some (c\<lparr>appliedCandidates := appliedCandidates c @ [candidate]\<rparr>))"

section \<open>The manager's state\<close>

text \<open>
  \<^verbatim>\<open>interface PeerConnection\<close> and the private fields of \<^verbatim>\<open>class WebRTCManager\<close>. The
  \<^verbatim>\<open>Map\<close> of peers keeps insertion order, so it is an association list read with
  \<open>map_of\<close>; a sender is known by the track it carries; a \<^verbatim>\<open>MediaStream\<close> is the list of its
  audio tracks, and the \<^verbatim>\<open>enabled\<close> flag of a track lives in one store, since the streams
  and the senders share the track objects. \<open>sent\<close> is what went through \<^verbatim>\<open>ws.send\<close>,
  \<open>notified\<close> the calls of the four callbacks given to the constructor. The field
  \<^verbatim>\<open>audioStream\<close> of a peer is never written and is left out.
\<close>

record rtc_sender =
  track :: "track_id option"

record peer_connection =
  id' :: peer_id
  connection :: rtc_connection
  audioSender :: "rtc_sender option"
  isPolite :: bool
  makingOffer :: bool
  pendingCandidates :: "ice_candidate list"

type_synonym media_stream = "track_id list"

datatype ready_state = Connecting | Open | Closing | SocketClosed

datatype signal_message =
  OfferMsg peer_id "session_description option"
  | AnswerMsg peer_id session_description
  | IceCandidateMsg peer_id ice_candidate
  | MicStatusMsg bool

datatype notification =
  PeerAudio peer_id | PeerDisconnect peer_id | UserConnected peer_id | MicStatusChange peer_id bool

record manager =
  peers :: "(peer_id \<times> peer_connection) list"
  localStream :: "media_stream option"
  processedStream :: "media_stream option"
  trackEnabled :: "track_id \<Rightarrow> bool"
  ws :: "ready_state option"
  sent :: "signal_message list"
  myId :: string
  isMicEnabled :: bool
  notified :: "notification list"

definition newWebRTCManager :: manager where
  "newWebRTCManager =
     \<lparr>peers = [], localStream = None, processedStream = None, trackEnabled = (\<lambda>t. True),
      ws = None, sent = [], myId = [], isMicEnabled = False, notified = []\<rparr>"

definition getMyId :: "manager \<Rightarrow> string" where
  "getMyId m = myId m"

definition isMicOn :: "manager \<Rightarrow> bool" where
  "isMicOn m = isMicEnabled m"

definition getPeer :: "manager \<Rightarrow> peer_id \<Rightarrow> peer_connection option" where
  "getPeer m peerId = map_of (peers m) peerId"

text \<open>A write through the reference \<^verbatim>\<open>peer\<close> that \<^verbatim>\<open>this.peers.get(peerId)\<close> returned.\<close>

definition modifyPeer ::
  "peer_id \<Rightarrow> (peer_connection \<Rightarrow> peer_connection) \<Rightarrow> manager \<Rightarrow> manager" where
  "modifyPeer peerId f m =
     m\<lparr>peers := map (\<lambda>(k, p). if k = peerId then (k, f p) else (k, p)) (peers m)\<rparr>"

definition notify :: "notification \<Rightarrow> manager \<Rightarrow> manager" where
  "notify n m = m\<lparr>notified := notified m @ [n]\<rparr>"

definition streamToUse :: "manager \<Rightarrow> media_stream option" where
  "streamToUse m = (case processedStream m of Some s \<Rightarrow> Some s | None \<Rightarrow> localStream m)"

section \<open>The operations of \<^verbatim>\<open>WebRTCManager\<close>\<close>

text \<open>
  Each method is a function from the manager's state to the state it leaves, run to
  completion: two handlers that interleave at an \<^verbatim>\<open>await\<close> are not modelled, but every
  statement below holds for any state a handler may find, also one with \<^verbatim>\<open>makingOffer\<close>
  set. A \<^verbatim>\<open>try\<close> block is a cascade of \<open>case\<close> distinctions on the results of the
  transport's calls: the branch \<open>None\<close> is the \<^verbatim>\<open>catch\<close>, which logs the error and keeps
  what the block had done so far. Closing a connection is not modelled apart from the
  removal of its session, after which nothing refers to it.
\<close>

definition sendToSignalingServer :: "manager \<Rightarrow> signal_message \<Rightarrow> manager" where
  "sendToSignalingServer m message =
     (if ws m = Some Open then m\<lparr>sent := sent m @ [message]\<rparr> else m)"

definition sendMicStatus :: "manager \<Rightarrow> bool \<Rightarrow> manager" where
  "sendMicStatus m status = sendToSignalingServer m (MicStatusMsg status)"

definition toggleMic :: "manager \<Rightarrow> bool \<Rightarrow> manager" where
  "toggleMic m enabled =
     (let m1 = (case streamToUse m of
                  Some s \<Rightarrow> m\<lparr>trackEnabled := fold (\<lambda>t e. e(t := enabled)) s (trackEnabled m)\<rparr>
                | None \<Rightarrow> m)
      in sendMicStatus (m1\<lparr>isMicEnabled := enabled\<rparr>) enabled)"

definition createPeerConnection :: "manager \<Rightarrow> peer_id \<Rightarrow> bool \<Rightarrow> manager" where
  "createPeerConnection m peerId polite =
     (case getPeer m peerId of
        Some existingPeer \<Rightarrow> m
      | None \<Rightarrow>
          m\<lparr>peers := peers m @
             [(peerId,
               \<lparr>id' = peerId,
                connection = addTransceiver newRTCPeerConnection,
                audioSender = Some \<lparr>track = None\<rparr>,
                isPolite = polite,
                makingOffer = False,
                pendingCandidates = []\<rparr>)]\<rparr>)"

definition removePeer :: "manager \<Rightarrow> peer_id \<Rightarrow> manager" where
  "removePeer m peerId =
     (case getPeer m peerId of
        Some peer \<Rightarrow> notify (PeerDisconnect peerId) (m\<lparr>peers := filter (\<lambda>(k, p). k \<noteq> peerId) (peers m)\<rparr>)
      | None \<Rightarrow> m)"

definition attachLocalAudio :: "environment \<Rightarrow> manager \<Rightarrow> peer_id \<Rightarrow> manager" where
  "attachLocalAudio env m peerId =
     (case (getPeer m peerId, streamToUse m) of
        (Some peer, Some (t # ts)) \<Rightarrow>
          (case audioSender peer of
             Some sender \<Rightarrow>
               (if track sender = Some t then m
                else if rejects env peerId ReplaceTrack then m
                else modifyPeer peerId (\<lambda>p. p\<lparr>audioSender := Some (sender\<lparr>track := Some t\<rparr>)\<rparr>) m)
           | None \<Rightarrow>
               (case rtc_addTrack (rejects env peerId AddTrack) (reuses env peerId)
                       (connection peer) of
                  None \<Rightarrow> m
                | Some c \<Rightarrow>
                    modifyPeer peerId (\<lambda>p. p\<lparr>connection := c, audioSender := Some \<lparr>track = Some t\<rparr>\<rparr>) m))
      | _ \<Rightarrow> m)"

text \<open>
  The body of the \<^verbatim>\<open>try\<close> of \<^verbatim>\<open>createOffer\<close> (lines 351 to 358) and of \<^verbatim>\<open>renegotiate\<close>
  (lines 182 to 189), which are the same statements: the peer as the block leaves it and
  the message handed to \<^verbatim>\<open>sendToSignalingServer\<close>, if the block got that far.
\<close>

definition offerAttempt ::
  "environment \<Rightarrow> peer_id \<Rightarrow> peer_connection \<Rightarrow> peer_connection \<times> signal_message option" where
  "offerAttempt env peerId peer =
     (case rtc_createOffer (rejects env peerId CreateOffer) (generated env peerId) (connection peer) of
        None \<Rightarrow> (peer, None)
      | Some offer \<Rightarrow>
          (case rtc_setLocalDescription (rejects env peerId SetLocalDescription) (connection peer) offer of
             None \<Rightarrow> (peer, None)
           | Some c \<Rightarrow> (peer\<lparr>connection := c\<rparr>, Some (OfferMsg peerId (localDescription c)))))"

definition sendIfAny :: "manager \<Rightarrow> signal_message option \<Rightarrow> manager" where
  "sendIfAny m msg = (case msg of Some message \<Rightarrow> sendToSignalingServer m message | None \<Rightarrow> m)"

definition guardedOffer :: "environment \<Rightarrow> manager \<Rightarrow> peer_id \<Rightarrow> manager" where
  "guardedOffer env m peerId =
     (case getPeer (modifyPeer peerId (\<lambda>p. p\<lparr>makingOffer := True\<rparr>) m) peerId of
        None \<Rightarrow> m
      | Some peer \<Rightarrow>
          (let (peer1, msg) = offerAttempt env peerId peer;
               m1 = sendIfAny (modifyPeer peerId (\<lambda>p. peer1) m) msg
           in modifyPeer peerId (\<lambda>p. p\<lparr>makingOffer := False\<rparr>) m1))"

definition renegotiate :: "environment \<Rightarrow> manager \<Rightarrow> peer_id \<Rightarrow> manager" where
  "renegotiate env m peerId =
     (case getPeer m peerId of
        None \<Rightarrow> m
      | Some peer \<Rightarrow>
          (if remoteDescription (connection peer) = None then m
           else if makingOffer peer then m
           else if signalingState (connection peer) \<noteq> Stable then m
           else guardedOffer env m peerId))"

definition createOffer :: "environment \<Rightarrow> manager \<Rightarrow> peer_id \<Rightarrow> manager" where
  "createOffer env m peerId =
     (let polite = myId m < peerId;
          m1 = createPeerConnection m peerId polite
      in case getPeer m1 peerId of
           None \<Rightarrow> m1
         | Some peer \<Rightarrow>
             (if makingOffer peer \<or> signalingState (connection peer) \<noteq> Stable then m1
              else guardedOffer env (attachLocalAudio env m1 peerId) peerId))"

text \<open>
  The loop over \<^verbatim>\<open>peer.pendingCandidates\<close>: the candidates go to the transport in the order
  of the list, and the first one the transport rejects throws out of the loop. The second
  component says whether the loop ran to its end.
\<close>

fun addIceCandidates ::
  "(ice_candidate \<Rightarrow> bool) \<Rightarrow> rtc_connection \<Rightarrow> ice_candidate list \<Rightarrow> rtc_connection \<times> bool" where
  "addIceCandidates rej c [] = (c, True)"
| "addIceCandidates rej c (candidate # rest) =
     (case rtc_addIceCandidate (rej candidate) c candidate of
        None \<Rightarrow> (c, False)
      | Some c1 \<Rightarrow> addIceCandidates rej c1 rest)"

definition processPending :: "environment \<Rightarrow> peer_id \<Rightarrow> peer_connection \<Rightarrow> peer_connection \<times> bool" where
  "processPending env peerId peer =
     (if length (pendingCandidates peer) > 0 then
        (case addIceCandidates (\<lambda>x. rejects env peerId (AddIceCandidate x))
                (connection peer) (pendingCandidates peer) of
           (c, True) \<Rightarrow> (peer\<lparr>connection := c, pendingCandidates := []\<rparr>, True)
         | (c, False) \<Rightarrow> (peer\<lparr>connection := c\<rparr>, False))
      else (peer, True))"

text \<open>The \<^verbatim>\<open>try\<close> of \<^verbatim>\<open>handleOffer\<close>, lines 393 to 411.\<close>

definition answerAttempt ::
  "environment \<Rightarrow> peer_id \<Rightarrow> session_description \<Rightarrow> peer_connection \<Rightarrow>
   peer_connection \<times> signal_message option" where
  "answerAttempt env peerId sdp peer =
     (case rtc_setRemoteDescription (rejects env peerId SetRemoteDescription)
             (unmatchedSections env peerId) (connection peer) sdp of
        None \<Rightarrow> (peer, None)
      | Some c1 \<Rightarrow>
          (case processPending env peerId (peer\<lparr>connection := c1\<rparr>) of
             (peer2, False) \<Rightarrow> (peer2, None)
           | (peer2, True) \<Rightarrow>
               (case rtc_createAnswer (rejects env peerId CreateAnswer) (generated env peerId)
                       (connection peer2) of
                  None \<Rightarrow> (peer2, None)
                | Some answer \<Rightarrow>
                    (case rtc_setLocalDescription (rejects env peerId SetLocalDescription)
                            (connection peer2) answer of
                       None \<Rightarrow> (peer2, None)
                     | Some c3 \<Rightarrow> (peer2\<lparr>connection := c3\<rparr>, Some (AnswerMsg peerId answer))))))"

definition offerCollision :: "peer_connection \<Rightarrow> bool" where
  "offerCollision peer = (makingOffer peer \<or> signalingState (connection peer) \<noteq> Stable)"

definition ignoreOffer :: "peer_connection \<Rightarrow> bool" where
  "ignoreOffer peer = (\<not> isPolite peer \<and> offerCollision peer)"

definition handleOffer :: "environment \<Rightarrow> manager \<Rightarrow> peer_id \<Rightarrow> session_description \<Rightarrow> manager" where
  "handleOffer env m peerId sdp =
     (let polite = myId m < peerId;
          m1 = (case getPeer m peerId of
                  Some peer \<Rightarrow> m
                | None \<Rightarrow> createPeerConnection m peerId polite)
      in case getPeer m1 peerId of
           None \<Rightarrow> m1
         | Some peer \<Rightarrow>
             (if ignoreOffer peer then m1
              else
                (let m2 = attachLocalAudio env m1 peerId
                 in case getPeer m2 peerId of
                      None \<Rightarrow> m2
                    | Some peer2 \<Rightarrow>
                        (let (peer3, msg) = answerAttempt env peerId sdp peer2
                         in sendIfAny (modifyPeer peerId (\<lambda>p. peer3) m2) msg))))"

definition handleAnswer :: "environment \<Rightarrow> manager \<Rightarrow> peer_id \<Rightarrow> session_description \<Rightarrow> manager" where
  "handleAnswer env m peerId sdp =
     (case getPeer m peerId of
        None \<Rightarrow> m
      | Some peer \<Rightarrow>
          (if signalingState (connection peer) \<noteq> HaveLocalOffer then m
           else
             (case rtc_setRemoteDescription (rejects env peerId SetRemoteDescription)
                     (unmatchedSections env peerId) (connection peer) sdp of
                None \<Rightarrow> m
              | Some c1 \<Rightarrow>
                  modifyPeer peerId (\<lambda>p. fst (processPending env peerId (peer\<lparr>connection := c1\<rparr>))) m)))"

definition handleIceCandidate ::
  "environment \<Rightarrow> manager \<Rightarrow> peer_id \<Rightarrow> ice_candidate option \<Rightarrow> manager" where
  "handleIceCandidate env m peerId candidate =
     (case (getPeer m peerId, candidate) of
        (Some peer, Some cand) \<Rightarrow>
          (if remoteDescription (connection peer) = None
           then modifyPeer peerId (\<lambda>p. p\<lparr>pendingCandidates := pendingCandidates p @ [cand]\<rparr>) m
           else
             (case rtc_addIceCandidate (rejects env peerId (AddIceCandidate cand)) (connection peer) cand of
                None \<Rightarrow> m
              | Some c \<Rightarrow> modifyPeer peerId (\<lambda>p. p\<lparr>connection := c\<rparr>) m))
      | _ \<Rightarrow> m)"

text \<open>
  \<^verbatim>\<open>addTracksToAllPeers\<close> walks the \<^verbatim>\<open>Map\<close> in insertion order. \<^verbatim>\<open>initLocalStream\<close> gets
  two results from outside: the stream \<^verbatim>\<open>getUserMedia\<close> delivers (\<open>None\<close> when it rejects,
  and then the method throws before it has written anything) and the stream the audio
  graph produces (\<open>None\<close> when \<^verbatim>\<open>applyAdvancedAudioProcessing\<close> falls back to the stream
  it was given).
\<close>

definition addTracksToAllPeers :: "environment \<Rightarrow> manager \<Rightarrow> manager" where
  "addTracksToAllPeers env m =
     (case streamToUse m of
        None \<Rightarrow> m
      | Some s \<Rightarrow>
          fold (\<lambda>peerId m1. renegotiate env (attachLocalAudio env m1 peerId) peerId)
               (map fst (peers m)) m)"

definition initLocalStream ::
  "environment \<Rightarrow> manager \<Rightarrow> media_stream option \<Rightarrow> media_stream option \<Rightarrow> manager" where
  "initLocalStream env m captured processed =
     (case captured of
        None \<Rightarrow> m
      | Some stream \<Rightarrow>
          (let out = (case processed of Some destination \<Rightarrow> destination | None \<Rightarrow> stream);
               m1 = m\<lparr>localStream := Some stream, processedStream := Some out\<rparr>;
               m2 = m1\<lparr>trackEnabled := fold (\<lambda>t e. e(t := False)) out (trackEnabled m1),
                       isMicEnabled := False\<rparr>
           in addTracksToAllPeers env m2))"

definition disconnect :: "manager \<Rightarrow> manager" where
  "disconnect m = m\<lparr>peers := [], localStream := None, processedStream := None, ws := None\<rparr>"

section \<open>Inbound signaling frames\<close>

text \<open>
  The frames of the protocol after \<^verbatim>\<open>JSON.parse\<close>. An identifier that is missing is the
  empty string (both are falsy); \<open>users\<close> is \<open>None\<close> when the field is not an array; a
  candidate that is missing or null is \<open>None\<close>; \<open>Unparsed\<close> is a frame that is not JSON or
  whose type is none of the seven.
\<close>

datatype frame =
  Welcome string "string list option"
  | UserConnectedFrame string
  | UserDisconnectedFrame string
  | OfferFrame peer_id session_description
  | AnswerFrame peer_id session_description
  | IceCandidateFrame peer_id "ice_candidate option"
  | MicStatusFrame string bool
  | Unparsed

fun handleSignalingMessage :: "environment \<Rightarrow> manager \<Rightarrow> frame \<Rightarrow> manager" where
  "handleSignalingMessage env m (OfferFrame from sdp) = handleOffer env m from sdp"
| "handleSignalingMessage env m (AnswerFrame from sdp) = handleAnswer env m from sdp"
| "handleSignalingMessage env m (IceCandidateFrame from candidate) = handleIceCandidate env m from candidate"
| "handleSignalingMessage env m (MicStatusFrame ident status) = notify (MicStatusChange ident status) m"
| "handleSignalingMessage env m (UserDisconnectedFrame ident) = removePeer m ident"
| "handleSignalingMessage env m _ = m"

fun connectToUsers :: "environment \<Rightarrow> manager \<Rightarrow> string list \<Rightarrow> manager" where
  "connectToUsers env m [] = m"
| "connectToUsers env m (userId # rest) =
     connectToUsers env (createOffer env (notify (UserConnected userId) m) userId) rest"

text \<open>The handler \<^verbatim>\<open>ws.onmessage\<close> installed by \<^verbatim>\<open>connectToSignalingServer\<close>.\<close>

definition onmessage :: "environment \<Rightarrow> manager \<Rightarrow> frame \<Rightarrow> manager" where
  "onmessage env m data =
     (let other =
            (let m1 = handleSignalingMessage env m data
             in case data of
                  UserConnectedFrame ident \<Rightarrow>
                    (if ident \<noteq> [] then createOffer env (notify (UserConnected ident) m1) ident
                     else m1)
                | _ \<Rightarrow> m1)
      in case data of
           Welcome ident users \<Rightarrow>
             (if ident \<noteq> [] then
                (let m1 = m\<lparr>myId := ident\<rparr>
                 in case users of Some us \<Rightarrow> connectToUsers env m1 us | None \<Rightarrow> m1)
              else other)
         | _ \<Rightarrow> other)"

section \<open>Events of the event loop\<close>

text \<open>
  Besides a frame, the manager is entered by the consumer (\<^verbatim>\<open>toggleMic\<close>,
  \<^verbatim>\<open>initLocalStream\<close>, \<^verbatim>\<open>disconnect\<close>), by the socket opening or closing, and by the three
  callbacks \<^verbatim>\<open>createPeerConnection\<close> installs on a connection.
\<close>

datatype connection_state = New | ConnectingState | Connected | Disconnected | Failed | ClosedState

datatype event =
  Frame frame
  | ToggleMic bool
  | InitLocalStream "media_stream option" "media_stream option"
  | Disconnect
  | SocketState "ready_state option"
  | OnIceCandidate peer_id "ice_candidate option"
  | OnTrack peer_id
  | OnConnectionStateChange peer_id connection_state

fun step :: "environment \<Rightarrow> manager \<Rightarrow> event \<Rightarrow> manager" where
  "step env m (Frame data) = onmessage env m data"
| "step env m (ToggleMic enabled) = toggleMic m enabled"
| "step env m (InitLocalStream captured processed) = initLocalStream env m captured processed"
| "step env m Disconnect = disconnect m"
| "step env m (SocketState s) = m\<lparr>ws := s\<rparr>"
| "step env m (OnIceCandidate peerId candidate) =
     (case candidate of
        Some cand \<Rightarrow> sendToSignalingServer m (IceCandidateMsg peerId cand)
      | None \<Rightarrow> m)"
| "step env m (OnTrack peerId) = (if peerId = myId m then m else notify (PeerAudio peerId) m)"
| "step env m (OnConnectionStateChange peerId cs) =
     (if cs = Disconnected \<or> cs = Failed then removePeer m peerId else m)"

fun run :: "manager \<Rightarrow> (environment \<times> event) list \<Rightarrow> manager" where
  "run m [] = m"
| "run m ((env, e) # rest) = run (step env m e) rest"

section \<open>Notions used in the statements and proofs\<close>

text \<open>
  An environment in which the platform accepts every call, finds one media section without
  a transceiver in a remote offer, and lets \<^verbatim>\<open>addTrack\<close> reuse the first transceiver.
\<close>

definition quietEnvironment :: environment where
  "quietEnvironment =
     \<lparr>rejects = (\<lambda>peerId call. False), generated = (\<lambda>peerId. ''v=0''),
      unmatchedSections = (\<lambda>peerId. 1), reuses = (\<lambda>peerId. Some 0)\<rparr>"

text \<open>An environment in which the platform rejects one kind of call and accepts the others.\<close>

definition rejectingEnvironment :: "rtc_call \<Rightarrow> environment" where
  "rejectingEnvironment call =
     \<lparr>rejects = (\<lambda>peerId c. c = call), generated = (\<lambda>peerId. ''v=0''),
      unmatchedSections = (\<lambda>peerId. 1), reuses = (\<lambda>peerId. Some 0)\<rparr>"

text \<open>A manager that has received its identifier over an open socket.\<close>

definition aliceManager :: manager where
  "aliceManager = newWebRTCManager\<lparr>ws := Some Open, myId := ''alice''\<rparr>"

definition carlManager :: manager where
  "carlManager = newWebRTCManager\<lparr>ws := Some Open, myId := ''carl''\<rparr>"

text \<open>
  The manager \<open>alice\<close> after it has offered to \<open>bob\<close> and two candidates of \<open>bob\<close> have
  arrived ahead of his answer.
\<close>

definition aliceAwaitingAnswer :: manager where
  "aliceAwaitingAnswer =
     run newWebRTCManager
       [(quietEnvironment, SocketState (Some Open)),
        (quietEnvironment, Frame (Welcome ''alice'' (Some [''bob'']))),
        (quietEnvironment, Frame (IceCandidateFrame ''bob'' (Some ''c1''))),
        (quietEnvironment, Frame (IceCandidateFrame ''bob'' (Some ''c2'')))]"

text \<open>An event that is a \<^verbatim>\<open>welcome\<close> frame carrying an identifier.\<close>

fun assignsIdentifier :: "event \<Rightarrow> bool" where
  "assignsIdentifier (Frame (Welcome ident users)) = (ident \<noteq> [])"
| "assignsIdentifier _ = False"

text \<open>The entry \<^verbatim>\<open>createPeerConnection\<close> stores for a remote identifier it does not know.\<close>

definition freshPeer :: "peer_id \<Rightarrow> bool \<Rightarrow> peer_connection" where
  "freshPeer peerId polite =
     \<lparr>id' = peerId, connection = addTransceiver newRTCPeerConnection,
      audioSender = Some \<lparr>track = None\<rparr>, isPolite = polite, makingOffer = False,
      pendingCandidates = []\<rparr>"

text \<open>
  A connection is settled when it has a remote description that no later call of the
  manager can take away: while a remote offer awaits its answer, that offer is the pending
  remote description.
\<close>

definition settled :: "rtc_connection \<Rightarrow> bool" where
  "settled c =
     (remoteDescription c \<noteq> None \<and>
      (signalingState c = HaveRemoteOffer \<or> signalingState c = HaveLocalPranswer
         \<longrightarrow> pendingRemoteDescription c \<noteq> None))"

text \<open>The transceivers \<open>ts'\<close> are the transceivers \<open>ts\<close> and receive-only ones after them.\<close>

definition receiveOnlyAdded :: "direction list \<Rightarrow> direction list \<Rightarrow> bool" where
  "receiveOnlyAdded ts ts' = (\<exists>k. ts' = ts @ replicate k RecvOnly)"

text \<open>
  What one run of a method keeps of a session: its identifier, its role, its
  \<^verbatim>\<open>makingOffer\<close> flag as seen between two runs, its sender and its transceivers (to
  which only receive-only ones are added) once it has a sender, and an empty buffer once
  the connection is settled.
\<close>

definition keeps :: "peer_connection \<Rightarrow> peer_connection \<Rightarrow> bool" where
  "keeps p p' =
     (id' p' = id' p \<and> isPolite p' = isPolite p \<and> makingOffer p' = makingOffer p \<and>
      (audioSender p \<noteq> None \<longrightarrow>
         audioSender p' \<noteq> None \<and>
         receiveOnlyAdded (transceivers (connection p)) (transceivers (connection p'))) \<and>
      (settled (connection p) \<and> pendingCandidates p = [] \<longrightarrow>
         settled (connection p') \<and> pendingCandidates p' = []))"

text \<open>
  A run that removes no session: every session it found is kept in the sense above, and
  every session it added started as a fresh one.
\<close>

definition grows :: "manager \<Rightarrow> manager \<Rightarrow> bool" where
  "grows m m' =
     (\<forall>q. case getPeer m q of
            Some p \<Rightarrow> (\<exists>p'. getPeer m' q = Some p' \<and> keeps p p')
          | None \<Rightarrow>
              getPeer m' q = None \<or> (\<exists>r p'. getPeer m' q = Some p' \<and> keeps (freshPeer q r) p'))"

section \<open>Basic facts about the session table\<close>

lemmas transport_defs = newRTCPeerConnection_def localDescription_def remoteDescription_def
  addTransceiver_def rtc_addTrack_def rtc_createOffer_def rtc_createAnswer_def
  rtc_setLocalDescription_def rtc_setRemoteDescription_def rtc_addIceCandidate_def

lemmas manager_defs = newWebRTCManager_def getMyId_def isMicOn_def getPeer_def modifyPeer_def
  notify_def streamToUse_def sendToSignalingServer_def sendMicStatus_def toggleMic_def
  createPeerConnection_def removePeer_def attachLocalAudio_def offerAttempt_def sendIfAny_def
  guardedOffer_def renegotiate_def createOffer_def processPending_def answerAttempt_def
  offerCollision_def ignoreOffer_def handleOffer_def handleAnswer_def handleIceCandidate_def
  addTracksToAllPeers_def initLocalStream_def disconnect_def onmessage_def
  quietEnvironment_def rejectingEnvironment_def aliceManager_def carlManager_def
  aliceAwaitingAnswer_def Let_def

lemma fold_upd: "fold (\<lambda>t e. e(t := v)) s f = (\<lambda>t. if t \<in> set s then v else f t)"
  by (induction s arbitrary: f) (auto simp: fun_eq_iff)

lemma map_of_modify:
  "map_of (map (\<lambda>(k, p). if k = peerId then (k, f p) else (k, p)) ps) q =
     (if q = peerId then map_option f (map_of ps q) else map_of ps q)"
  by (induction ps) auto

lemma getPeer_modifyPeer:
  "getPeer (modifyPeer peerId f m) q = (if q = peerId then map_option f (getPeer m q) else getPeer m q)"
  by (simp add: getPeer_def modifyPeer_def map_of_modify)

lemma modifyPeer_fields [simp]:
  "sent (modifyPeer peerId f m) = sent m"
  "ws (modifyPeer peerId f m) = ws m"
  "myId (modifyPeer peerId f m) = myId m"
  "isMicEnabled (modifyPeer peerId f m) = isMicEnabled m"
  "notified (modifyPeer peerId f m) = notified m"
  "localStream (modifyPeer peerId f m) = localStream m"
  "processedStream (modifyPeer peerId f m) = processedStream m"
  "trackEnabled (modifyPeer peerId f m) = trackEnabled m"
  "streamToUse (modifyPeer peerId f m) = streamToUse m"
  by (simp_all add: modifyPeer_def streamToUse_def split: option.splits)

lemma getPeer_send [simp]:
  "getPeer (sendToSignalingServer m msg) q = getPeer m q"
  "getPeer (sendIfAny m mo) q = getPeer m q"
  "getPeer (notify n m) q = getPeer m q"
  by (simp_all add: sendToSignalingServer_def sendIfAny_def notify_def getPeer_def split: option.splits)

lemma getPeer_createPeerConnection:
  "getPeer (createPeerConnection m peerId polite) q =
     (case getPeer m q of
        Some p \<Rightarrow> Some p
      | None \<Rightarrow> if q = peerId then Some (freshPeer peerId polite) else None)"
  by (auto simp: createPeerConnection_def getPeer_def map_add_def freshPeer_def split: option.splits)

lemma hasPeer_attachLocalAudio:
  "getPeer (attachLocalAudio env m peerId) q = None \<longleftrightarrow> getPeer m q = None"
  by (auto simp: attachLocalAudio_def getPeer_modifyPeer split: option.splits list.splits)

section \<open>What a run keeps of a session\<close>

lemma receiveOnlyAdded_refl [simp]: "receiveOnlyAdded ts ts"
  by (simp add: receiveOnlyAdded_def)

lemma receiveOnlyAdded_trans:
  "receiveOnlyAdded ts ts' \<Longrightarrow> receiveOnlyAdded ts' ts'' \<Longrightarrow> receiveOnlyAdded ts ts''"
  unfolding receiveOnlyAdded_def by (metis append.assoc replicate_add)

lemma receiveOnlyAdded_append [simp]: "receiveOnlyAdded ts (ts @ replicate k RecvOnly)"
  unfolding receiveOnlyAdded_def by blast

lemma keeps_refl [simp]: "keeps p p"
  by (simp add: keeps_def)

lemma keeps_trans: "keeps p p' \<Longrightarrow> keeps p' p'' \<Longrightarrow> keeps p p''"
  unfolding keeps_def by (auto intro: receiveOnlyAdded_trans)

lemma grows_refl [simp]: "grows m m"
  by (auto simp: grows_def split: option.splits)

lemma grows_trans: "grows m m' \<Longrightarrow> grows m' m'' \<Longrightarrow> grows m m''"
  unfolding grows_def
proof (intro allI)
  fix q
  assume a: "\<forall>q. case getPeer m q of
            Some p \<Rightarrow> (\<exists>p'. getPeer m' q = Some p' \<and> keeps p p')
          | None \<Rightarrow> getPeer m' q = None \<or> (\<exists>r p'. getPeer m' q = Some p' \<and> keeps (freshPeer q r) p')"
    and b: "\<forall>q. case getPeer m' q of
            Some p \<Rightarrow> (\<exists>p'. getPeer m'' q = Some p' \<and> keeps p p')
          | None \<Rightarrow> getPeer m'' q = None \<or> (\<exists>r p'. getPeer m'' q = Some p' \<and> keeps (freshPeer q r) p')"
  from a have a': "case getPeer m q of
            Some p \<Rightarrow> (\<exists>p'. getPeer m' q = Some p' \<and> keeps p p')
          | None \<Rightarrow> getPeer m' q = None \<or> (\<exists>r p'. getPeer m' q = Some p' \<and> keeps (freshPeer q r) p')" by blast
  from b have b': "case getPeer m' q of
            Some p \<Rightarrow> (\<exists>p'. getPeer m'' q = Some p' \<and> keeps p p')
          | None \<Rightarrow> getPeer m'' q = None \<or> (\<exists>r p'. getPeer m'' q = Some p' \<and> keeps (freshPeer q r) p')" by blast
  show "case getPeer m q of
            Some p \<Rightarrow> (\<exists>p'. getPeer m'' q = Some p' \<and> keeps p p')
          | None \<Rightarrow> getPeer m'' q = None \<or> (\<exists>r p'. getPeer m'' q = Some p' \<and> keeps (freshPeer q r) p')"
    using a' b' by (auto split: option.splits intro: keeps_trans)
qed

lemma grows_same: "(\<And>q. getPeer m' q = getPeer m q) \<Longrightarrow> grows m m'"
  by (auto simp: grows_def split: option.splits)

lemma grows_modifyPeer:
  "(\<And>p. getPeer m peerId = Some p \<Longrightarrow> keeps p (f p)) \<Longrightarrow> grows m (modifyPeer peerId f m)"
  by (auto simp: grows_def getPeer_modifyPeer split: option.splits)

lemma grows_createPeerConnection: "grows m (createPeerConnection m peerId polite)"
  unfolding grows_def
proof
  fix q
  show "case getPeer m q of
          Some p \<Rightarrow> (\<exists>p'. getPeer (createPeerConnection m peerId polite) q = Some p' \<and> keeps p p')
        | None \<Rightarrow> getPeer (createPeerConnection m peerId polite) q = None \<or>
            (\<exists>r p'. getPeer (createPeerConnection m peerId polite) q = Some p' \<and> keeps (freshPeer q r) p')"
  proof (cases "getPeer m q")
    case None
    have "\<exists>r. keeps (freshPeer peerId r) (freshPeer peerId polite)"
      using keeps_refl by blast
    with None show ?thesis
      by (auto simp: getPeer_createPeerConnection)
  next
    case (Some p)
    then show ?thesis by (simp add: getPeer_createPeerConnection)
  qed
qed

lemma settled_setLocal:
  "rtc_setLocalDescription r c d = Some c' \<Longrightarrow>
     transceivers c' = transceivers c \<and> appliedCandidates c' = appliedCandidates c \<and>
     (settled c \<longrightarrow> settled c')"
  by (auto simp: rtc_setLocalDescription_def settled_def remoteDescription_def
      split: if_splits sdp_kind.splits option.splits)

lemma settled_setRemote:
  "rtc_setRemoteDescription r u c d = Some c' \<Longrightarrow>
     receiveOnlyAdded (transceivers c) (transceivers c') \<and>
     appliedCandidates c' = appliedCandidates c \<and>
     settled c' \<and> remoteDescription c' = Some d"
  by (auto simp: rtc_setRemoteDescription_def settled_def remoteDescription_def
      split: if_splits sdp_kind.splits option.splits)

lemma settled_addIce:
  "rtc_addIceCandidate r c x = Some c' \<Longrightarrow>
     transceivers c' = transceivers c \<and> (settled c \<longrightarrow> settled c') \<and>
     appliedCandidates c' = appliedCandidates c @ [x] \<and> remoteDescription c' = remoteDescription c
     \<and> signalingState c' = signalingState c"
  by (auto simp: rtc_addIceCandidate_def settled_def remoteDescription_def
      split: if_splits option.splits)

lemma settled_addTrack:
  "rtc_addTrack r u c = Some c' \<Longrightarrow> (settled c \<longrightarrow> settled c')"
  by (auto simp: rtc_addTrack_def settled_def remoteDescription_def
      split: if_splits option.splits)

lemma addIceCandidates_keeps:
  "addIceCandidates rej c xs = (c', ok) \<Longrightarrow>
     transceivers c' = transceivers c \<and> (settled c \<longrightarrow> settled c')"
proof (induction xs arbitrary: c)
  case Nil
  then show ?case by simp
next
  case (Cons x xs)
  then show ?case
    by (auto split: option.splits dest!: settled_addIce)
qed

lemma grows_attachLocalAudio: "grows m (attachLocalAudio env m peerId)"
  unfolding attachLocalAudio_def
  by (auto split: option.splits list.splits intro!: grows_modifyPeer
      simp: keeps_def dest: settled_addTrack)

lemma offerAttempt_shape:
  "offerAttempt env peerId p = (p1, msg) \<Longrightarrow>
     id' p1 = id' p \<and> audioSender p1 = audioSender p \<and> isPolite p1 = isPolite p \<and>
     makingOffer p1 = makingOffer p \<and> pendingCandidates p1 = pendingCandidates p \<and>
     transceivers (connection p1) = transceivers (connection p) \<and>
     appliedCandidates (connection p1) = appliedCandidates (connection p) \<and>
     (settled (connection p) \<longrightarrow> settled (connection p1))"
  by (auto simp: offerAttempt_def split: option.splits dest!: settled_setLocal)

lemma getPeer_guardedOffer:
  "getPeer (guardedOffer env m peerId) q =
     (if q = peerId then
        map_option (\<lambda>p. (fst (offerAttempt env peerId (p\<lparr>makingOffer := True\<rparr>)))\<lparr>makingOffer := False\<rparr>)
          (getPeer m q)
      else getPeer m q)"
  by (auto simp: guardedOffer_def getPeer_modifyPeer Let_def split: option.splits prod.splits)

lemma keeps_guarded:
  assumes "\<not> makingOffer p"
  shows "keeps p ((fst (offerAttempt env peerId (p\<lparr>makingOffer := True\<rparr>)))\<lparr>makingOffer := False\<rparr>)"
proof -
  obtain p1 msg where e: "offerAttempt env peerId (p\<lparr>makingOffer := True\<rparr>) = (p1, msg)"
    by (cases "offerAttempt env peerId (p\<lparr>makingOffer := True\<rparr>)")
  have "keeps p (p1\<lparr>makingOffer := False\<rparr>)"
    using assms offerAttempt_shape [OF e] by (simp add: keeps_def)
  with e show ?thesis by simp
qed

lemma grows_guardedOffer:
  "(\<And>p. getPeer m peerId = Some p \<Longrightarrow> \<not> makingOffer p) \<Longrightarrow> grows m (guardedOffer env m peerId)"
  by (auto simp: grows_def getPeer_guardedOffer keeps_guarded split: option.splits)

lemma grows_renegotiate: "grows m (renegotiate env m peerId)"
  by (auto simp: renegotiate_def intro: grows_guardedOffer split: option.splits)

lemma makingOffer_attachLocalAudio:
  "getPeer (attachLocalAudio env m peerId) q = Some p' \<Longrightarrow>
     \<exists>p. getPeer m q = Some p \<and> makingOffer p' = makingOffer p \<and>
         signalingState (connection p') = signalingState (connection p)"
  by (auto simp: attachLocalAudio_def getPeer_modifyPeer rtc_addTrack_def
      split: option.splits list.splits if_splits)

lemma grows_createOffer_created:
  "grows (createPeerConnection m peerId (myId m < peerId)) (createOffer env m peerId)"
proof -
  let ?m1 = "createPeerConnection m peerId (myId m < peerId)"
  show ?thesis
  proof (cases "getPeer ?m1 peerId")
    case None
    then show ?thesis by (simp add: createOffer_def Let_def)
  next
    case (Some peer)
    show ?thesis
    proof (cases "makingOffer peer \<or> signalingState (connection peer) \<noteq> Stable")
      case True
      with Some show ?thesis by (simp add: createOffer_def Let_def)
    next
      case False
      let ?m2 = "attachLocalAudio env ?m1 peerId"
      have b: "grows ?m1 ?m2" by (rule grows_attachLocalAudio)
      have "\<And>p. getPeer ?m2 peerId = Some p \<Longrightarrow> \<not> makingOffer p"
        using Some False by (auto dest!: makingOffer_attachLocalAudio)
      then have c: "grows ?m2 (guardedOffer env ?m2 peerId)" by (rule grows_guardedOffer)
      have "createOffer env m peerId = guardedOffer env ?m2 peerId"
        using Some False by (simp add: createOffer_def Let_def)
      moreover have "grows ?m1 (guardedOffer env ?m2 peerId)"
        by (rule grows_trans [OF b c])
      ultimately show ?thesis by simp
    qed
  qed
qed

lemma grows_createOffer: "grows m (createOffer env m peerId)"
  by (rule grows_trans [OF grows_createPeerConnection grows_createOffer_created])

lemma processPending_shape:
  "processPending env peerId p = (p1, ok) \<Longrightarrow>
     id' p1 = id' p \<and> audioSender p1 = audioSender p \<and> isPolite p1 = isPolite p \<and>
     makingOffer p1 = makingOffer p \<and>
     transceivers (connection p1) = transceivers (connection p) \<and>
     (settled (connection p) \<longrightarrow> settled (connection p1)) \<and>
     (pendingCandidates p = [] \<longrightarrow> pendingCandidates p1 = [])"
  by (auto simp: processPending_def split: if_splits prod.splits bool.splits
      dest!: addIceCandidates_keeps)

lemma answerAttempt_shape:
  assumes "answerAttempt env peerId sdp p = (p1, msg)"
  shows "id' p1 = id' p \<and> audioSender p1 = audioSender p \<and> isPolite p1 = isPolite p \<and>
     makingOffer p1 = makingOffer p \<and>
     receiveOnlyAdded (transceivers (connection p)) (transceivers (connection p1)) \<and>
     (settled (connection p) \<longrightarrow> settled (connection p1)) \<and>
     (pendingCandidates p = [] \<longrightarrow> pendingCandidates p1 = [])"
proof (cases "rtc_setRemoteDescription (rejects env peerId SetRemoteDescription)
      (unmatchedSections env peerId) (connection p) sdp")
  case None
  with assms show ?thesis by (simp add: answerAttempt_def)
next
  case (Some c1)
  note r = settled_setRemote [OF Some]
  obtain p2 ok where pp: "processPending env peerId (p\<lparr>connection := c1\<rparr>) = (p2, ok)"
    by (cases "processPending env peerId (p\<lparr>connection := c1\<rparr>)")
  note s = processPending_shape [OF pp]
  have base: "id' p2 = id' p \<and> audioSender p2 = audioSender p \<and> isPolite p2 = isPolite p \<and>
     makingOffer p2 = makingOffer p \<and>
     receiveOnlyAdded (transceivers (connection p)) (transceivers (connection p2)) \<and>
     settled (connection p2) \<and>
     (pendingCandidates p = [] \<longrightarrow> pendingCandidates p2 = [])"
    using r s by simp
  show ?thesis
  proof (cases "ok \<and> rtc_createAnswer (rejects env peerId CreateAnswer) (generated env peerId)
                       (connection p2) \<noteq> None")
    case False
    with assms Some pp have "p1 = p2"
      by (auto simp: answerAttempt_def split: option.splits bool.splits)
    with base show ?thesis by simp
  next
    case True
    then obtain answer where an: "rtc_createAnswer (rejects env peerId CreateAnswer)
        (generated env peerId) (connection p2) = Some answer" and ok: ok
      by auto
    show ?thesis
    proof (cases "rtc_setLocalDescription (rejects env peerId SetLocalDescription)
                            (connection p2) answer")
      case None
      with assms Some pp an ok have "p1 = p2"
        by (simp add: answerAttempt_def)
      with base show ?thesis by simp
    next
      case (Some c3)
      with assms \<open>rtc_setRemoteDescription _ _ _ _ = Some c1\<close> pp an ok
      have "p1 = p2\<lparr>connection := c3\<rparr>"
        by (simp add: answerAttempt_def)
      with base settled_setLocal [OF Some] show ?thesis by simp
    qed
  qed
qed

lemma grows_send [simp]:
  "grows m (sendIfAny m' msg) = grows m m'"
  "grows m (sendToSignalingServer m' message) = grows m m'"
  "grows m (notify n m') = grows m m'"
  by (simp_all add: grows_def cong: option.case_cong)

lemma keeps_answerAttempt: "answerAttempt env peerId sdp p = (p1, msg) \<Longrightarrow> keeps p p1"
  by (drule answerAttempt_shape) (simp add: keeps_def)

lemma grows_handleOffer_created:
  "grows (case getPeer m peerId of Some peer \<Rightarrow> m
          | None \<Rightarrow> createPeerConnection m peerId (myId m < peerId))
         (handleOffer env m peerId sdp)"
proof -
  let ?m1 = "case getPeer m peerId of Some peer \<Rightarrow> m
             | None \<Rightarrow> createPeerConnection m peerId (myId m < peerId)"
  show ?thesis
  proof (cases "getPeer ?m1 peerId")
    case None
    then show ?thesis by (simp add: handleOffer_def Let_def)
  next
    case (Some peer)
    show ?thesis
    proof (cases "ignoreOffer peer")
      case True
      with Some show ?thesis by (simp add: handleOffer_def Let_def)
    next
      case False
      let ?m2 = "attachLocalAudio env ?m1 peerId"
      have b: "grows ?m1 ?m2" by (rule grows_attachLocalAudio)
      show ?thesis
      proof (cases "getPeer ?m2 peerId")
        case None
        with Some False have "handleOffer env m peerId sdp = ?m2"
          by (simp add: handleOffer_def Let_def)
        with b show ?thesis by simp
      next
        case (Some peer2)
        obtain peer3 msg where e: "answerAttempt env peerId sdp peer2 = (peer3, msg)"
          by (cases "answerAttempt env peerId sdp peer2")
        have c: "grows ?m2 (modifyPeer peerId (\<lambda>p. peer3) ?m2)"
          using Some keeps_answerAttempt [OF e] by (intro grows_modifyPeer) simp
        have "handleOffer env m peerId sdp = sendIfAny (modifyPeer peerId (\<lambda>p. peer3) ?m2) msg"
          using \<open>getPeer ?m1 peerId = Some peer\<close> False Some e
          by (simp add: handleOffer_def Let_def)
        moreover have "grows ?m1 (modifyPeer peerId (\<lambda>p. peer3) ?m2)"
          by (rule grows_trans [OF b c])
        ultimately show ?thesis by simp
      qed
    qed
  qed
qed

lemma grows_handleOffer: "grows m (handleOffer env m peerId sdp)"
proof -
  have "grows m (case getPeer m peerId of Some peer \<Rightarrow> m
             | None \<Rightarrow> createPeerConnection m peerId (myId m < peerId))"
    by (simp add: grows_createPeerConnection split: option.splits)
  from grows_trans [OF this grows_handleOffer_created] show ?thesis .
qed

lemma grows_handleAnswer: "grows m (handleAnswer env m peerId sdp)"
proof (cases "getPeer m peerId")
  case None
  then show ?thesis by (simp add: handleAnswer_def)
next
  case (Some peer)
  show ?thesis
  proof (cases "rtc_setRemoteDescription (rejects env peerId SetRemoteDescription)
                     (unmatchedSections env peerId) (connection peer) sdp")
    case None
    with Some show ?thesis by (simp add: handleAnswer_def)
  next
    case (Some c1)
    obtain p1 ok where pp: "processPending env peerId (peer\<lparr>connection := c1\<rparr>) = (p1, ok)"
      by (cases "processPending env peerId (peer\<lparr>connection := c1\<rparr>)")
    have "keeps peer p1"
      using processPending_shape [OF pp] settled_setRemote [OF Some] by (simp add: keeps_def)
    then have "grows m (modifyPeer peerId (\<lambda>p. p1) m)"
      using \<open>getPeer m peerId = Some peer\<close> by (intro grows_modifyPeer) simp
    with \<open>getPeer m peerId = Some peer\<close> Some pp show ?thesis
      by (simp add: handleAnswer_def)
  qed
qed

lemma grows_handleIceCandidate: "grows m (handleIceCandidate env m peerId candidate)"
proof (cases "getPeer m peerId")
  case None
  then show ?thesis by (auto simp: handleIceCandidate_def)
next
  case (Some peer)
  show ?thesis
  proof (cases candidate)
    case None
    with Some show ?thesis by (auto simp: handleIceCandidate_def)
  next
    case c: (Some cand)
    show ?thesis
    proof (cases "remoteDescription (connection peer) = None")
      case True
      have "grows m (modifyPeer peerId (\<lambda>p. p\<lparr>pendingCandidates := pendingCandidates p @ [cand]\<rparr>) m)"
        using Some True by (intro grows_modifyPeer) (simp add: keeps_def settled_def)
      with Some c True show ?thesis by (auto simp: handleIceCandidate_def)
    next
      case False
      show ?thesis
      proof (cases "rtc_addIceCandidate (rejects env peerId (AddIceCandidate cand)) (connection peer) cand")
        case None
        with Some c False show ?thesis by (auto simp: handleIceCandidate_def)
      next
        case (Some c1)
        have "grows m (modifyPeer peerId (\<lambda>p. p\<lparr>connection := c1\<rparr>) m)"
          using \<open>getPeer m peerId = Some peer\<close> settled_addIce [OF Some]
          by (intro grows_modifyPeer) (simp add: keeps_def)
        with \<open>getPeer m peerId = Some peer\<close> c False Some show ?thesis
          by (auto simp: handleIceCandidate_def)
      qed
    qed
  qed
qed

lemma grows_connectToUsers: "grows m (connectToUsers env m us)"
proof (induction us arbitrary: m)
  case Nil
  show ?case by simp
next
  case (Cons u us)
  have "grows (notify (UserConnected u) m) (createOffer env (notify (UserConnected u) m) u)"
    by (rule grows_createOffer)
  moreover have "grows m (notify (UserConnected u) m)" by simp
  ultimately have "grows m (createOffer env (notify (UserConnected u) m) u)"
    by (rule grows_trans [rotated])
  from grows_trans [OF this Cons.IH] show ?case by simp
qed

lemma grows_fold_attach:
  "grows m (fold (\<lambda>peerId m1. renegotiate env (attachLocalAudio env m1 peerId) peerId) ks m)"
proof (induction ks arbitrary: m)
  case Nil
  show ?case by simp
next
  case (Cons k ks)
  have "grows m (renegotiate env (attachLocalAudio env m k) k)"
    by (rule grows_trans [OF grows_attachLocalAudio grows_renegotiate])
  from grows_trans [OF this Cons.IH] show ?case by simp
qed

lemma grows_addTracksToAllPeers: "grows m (addTracksToAllPeers env m)"
  by (simp add: addTracksToAllPeers_def grows_fold_attach split: option.splits)

lemma grows_initLocalStream: "grows m (initLocalStream env m captured processed)"
proof (cases captured)
  case None
  then show ?thesis by (simp add: initLocalStream_def)
next
  case (Some stream)
  define m2 where "m2 = m\<lparr>localStream := Some stream,
      processedStream := Some (case processed of Some destination \<Rightarrow> destination | None \<Rightarrow> stream),
      trackEnabled := fold (\<lambda>t e. e(t := False))
         (case processed of Some destination \<Rightarrow> destination | None \<Rightarrow> stream) (trackEnabled m),
      isMicEnabled := False\<rparr>"
  have "grows m m2" by (rule grows_same) (simp add: m2_def getPeer_def)
  moreover have "grows m2 (addTracksToAllPeers env m2)" by (rule grows_addTracksToAllPeers)
  moreover have "initLocalStream env m captured processed = addTracksToAllPeers env m2"
    using Some by (simp add: initLocalStream_def Let_def m2_def)
  ultimately show ?thesis by (simp add: grows_trans)
qed

lemma grows_toggleMic: "grows m (toggleMic m enabled)"
  by (rule grows_same) (simp add: toggleMic_def sendMicStatus_def getPeer_def
      sendToSignalingServer_def Let_def split: option.splits)

lemma getPeer_removePeer:
  "getPeer (removePeer m peerId) q = (if q = peerId then None else getPeer m q)"
proof -
  have "map_of (filter (\<lambda>(k, p). k \<noteq> peerId) ps) q = (if q = peerId then None else map_of ps q)"
    for ps :: "(peer_id \<times> peer_connection) list"
    by (induction ps) auto
  then show ?thesis
    by (auto simp: removePeer_def getPeer_def notify_def split: option.splits)
qed

lemma grows_handleSignalingMessage:
  "\<forall>ident. data \<noteq> UserDisconnectedFrame ident \<Longrightarrow> grows m (handleSignalingMessage env m data)"
  by (cases data)
     (simp_all add: grows_handleOffer grows_handleAnswer grows_handleIceCandidate)

lemma grows_onmessage:
  assumes "\<forall>ident. data \<noteq> UserDisconnectedFrame ident"
  shows "grows m (onmessage env m data)"
proof (cases data)
  case (Welcome ident users)
  have a: "grows m (m\<lparr>myId := ident\<rparr>)" by (rule grows_same) (simp add: getPeer_def)
  have "grows m (connectToUsers env (m\<lparr>myId := ident\<rparr>) us)" for us
    by (rule grows_trans [OF a grows_connectToUsers])
  with Welcome a show ?thesis
    by (simp add: onmessage_def Let_def split: option.splits)
next
  case (UserConnectedFrame ident)
  have "grows m (createOffer env (notify (UserConnected ident) m) ident)"
    by (rule grows_trans [OF _ grows_createOffer]) simp
  with UserConnectedFrame show ?thesis by (simp add: onmessage_def Let_def)
next
  case (UserDisconnectedFrame ident)
  with assms show ?thesis by simp
next
  case (OfferFrame sender sdp)
  then show ?thesis by (simp add: onmessage_def Let_def grows_handleOffer)
next
  case (AnswerFrame sender sdp)
  then show ?thesis by (simp add: onmessage_def Let_def grows_handleAnswer)
next
  case (IceCandidateFrame sender candidate)
  then show ?thesis by (simp add: onmessage_def Let_def grows_handleIceCandidate)
next
  case (MicStatusFrame ident status)
  then show ?thesis by (simp add: onmessage_def Let_def)
next
  case Unparsed
  then show ?thesis by (simp add: onmessage_def Let_def)
qed

lemma grows_session:
  "grows m m' \<Longrightarrow> getPeer m' q = Some p' \<Longrightarrow>
     (case getPeer m q of Some p \<Rightarrow> keeps p p' | None \<Rightarrow> \<exists>r. keeps (freshPeer q r) p')"
  unfolding grows_def by (erule allE [of _ q]) (auto split: option.splits)

lemma step_session:
  assumes "getPeer (step env m e) q = Some p'"
  shows "case getPeer m q of Some p \<Rightarrow> keeps p p' | None \<Rightarrow> \<exists>r. keeps (freshPeer q r) p'"
proof (cases e)
  case (Frame data)
  show ?thesis
  proof (cases "\<exists>ident. data = UserDisconnectedFrame ident")
    case True
    then obtain ident where "data = UserDisconnectedFrame ident" ..
    with assms Frame show ?thesis
      by (auto simp: onmessage_def getPeer_removePeer split: if_splits)
  next
    case False
    then have "grows m (onmessage env m data)" by (intro grows_onmessage) blast
    from grows_session [OF this] assms Frame show ?thesis by simp
  qed
next
  case (ToggleMic enabled)
  with assms grows_session [OF grows_toggleMic] show ?thesis by simp
next
  case (InitLocalStream captured processed)
  with assms grows_session [OF grows_initLocalStream] show ?thesis by simp
next
  case Disconnect
  with assms show ?thesis by (simp add: disconnect_def getPeer_def)
next
  case (SocketState s)
  with assms show ?thesis by (simp add: getPeer_def)
next
  case (OnIceCandidate peerId candidate)
  with assms show ?thesis by (auto split: option.splits)
next
  case (OnTrack peerId)
  with assms show ?thesis by (auto split: if_splits)
next
  case (OnConnectionStateChange peerId cs)
  with assms show ?thesis by (auto simp: getPeer_removePeer split: if_splits)
qed

lemma run_sessions:
  "getPeer (run m es) q = Some p \<Longrightarrow>
     (\<forall>q p0. getPeer m q = Some p0 \<longrightarrow>
        \<not> makingOffer p0 \<and> audioSender p0 \<noteq> None \<and>
        receiveOnlyAdded [SendRecv] (transceivers (connection p0))) \<Longrightarrow>
     \<not> makingOffer p \<and> audioSender p \<noteq> None \<and>
     receiveOnlyAdded [SendRecv] (transceivers (connection p))"
proof (induction es arbitrary: m)
  case Nil
  then show ?case by simp
next
  case (Cons ee es)
  obtain env e where ee: "ee = (env, e)" by (cases ee)
  have "\<forall>q p0. getPeer (step env m e) q = Some p0 \<longrightarrow>
          \<not> makingOffer p0 \<and> audioSender p0 \<noteq> None \<and>
          receiveOnlyAdded [SendRecv] (transceivers (connection p0))"
  proof (intro allI impI)
    fix q p0
    assume g: "getPeer (step env m e) q = Some p0"
    show "\<not> makingOffer p0 \<and> audioSender p0 \<noteq> None \<and>
          receiveOnlyAdded [SendRecv] (transceivers (connection p0))"
    proof (cases "getPeer m q")
      case None
      with step_session [OF g] obtain r where "keeps (freshPeer q r) p0" by auto
      then show ?thesis
        by (simp add: keeps_def freshPeer_def addTransceiver_def newRTCPeerConnection_def)
    next
      case (Some p1)
      with step_session [OF g] have k: "keeps p1 p0" by simp
      from Some Cons.prems(2)
      have i: "\<not> makingOffer p1 \<and> audioSender p1 \<noteq> None \<and>
          receiveOnlyAdded [SendRecv] (transceivers (connection p1))" by blast
      with k have "receiveOnlyAdded (transceivers (connection p1)) (transceivers (connection p0))"
        by (simp add: keeps_def)
      with i have "receiveOnlyAdded [SendRecv] (transceivers (connection p0))"
        by (blast intro: receiveOnlyAdded_trans)
      with k i show ?thesis by (simp add: keeps_def)
    qed
  qed
  with Cons.IH [of "step env m e"] Cons.prems(1) ee show ?case by simp
qed

lemma reachable_sessions:
  "getPeer (run newWebRTCManager es) q = Some p \<Longrightarrow>
     \<not> makingOffer p \<and> audioSender p \<noteq> None \<and>
     receiveOnlyAdded [SendRecv] (transceivers (connection p))"
  by (erule run_sessions) (simp add: getPeer_def newWebRTCManager_def)

lemma grows_existing:
  "grows m m' \<Longrightarrow> getPeer m q = Some p \<Longrightarrow> \<exists>p'. getPeer m' q = Some p' \<and> keeps p p'"
  unfolding grows_def by (erule allE [of _ q]) simp

section \<open>Roles\<close>

lemma createOffer_new_session:
  assumes "getPeer m peerId = None"
  shows "\<exists>p. getPeer (createOffer env m peerId) peerId = Some p \<and> keeps (freshPeer peerId (myId m < peerId)) p"
proof -
  have "getPeer (createPeerConnection m peerId (myId m < peerId)) peerId
          = Some (freshPeer peerId (myId m < peerId))"
    using assms by (simp add: getPeer_createPeerConnection)
  from grows_existing [OF grows_createOffer_created this] show ?thesis .
qed

lemma handleOffer_new_session:
  assumes "getPeer m peerId = None"
  shows "\<exists>p. getPeer (handleOffer env m peerId sdp) peerId = Some p \<and> keeps (freshPeer peerId (myId m < peerId)) p"
proof -
  have "getPeer (case getPeer m peerId of Some peer \<Rightarrow> m
          | None \<Rightarrow> createPeerConnection m peerId (myId m < peerId)) peerId
          = Some (freshPeer peerId (myId m < peerId))"
    using assms by (simp add: getPeer_createPeerConnection)
  from grows_existing [OF grows_handleOffer_created this] show ?thesis .
qed

text \<open>
  Claim C1. Let \<open>A\<close> and \<open>B\<close> be distinct identifiers, \<open>a\<close> a manager whose identifier is
  \<open>A\<close> and \<open>b\<close> one whose identifier is \<open>B\<close>, neither with a session for the other yet.
  Whether a side creates its session by \<^verbatim>\<open>createOffer\<close> or by \<^verbatim>\<open>handleOffer\<close>, the session
  of \<open>a\<close> is polite exactly when \<open>A < B\<close> and the session of \<open>b\<close> exactly when \<open>B < A\<close>,
  and exactly one of the two holds. A creation request for a remote identifier that has a
  session returns the state as it is, and no event changes the role of a session it leaves
  in the table.
\<close>

theorem polite_role_assignment:
  "(A \<noteq> B \<and> myId a = A \<and> myId b = B \<and> getPeer a B = None \<and> getPeer b A = None \<longrightarrow>
      (\<exists>pa pa' pb pb'.
         getPeer (createOffer ea a B) B = Some pa \<and> getPeer (handleOffer ea' a B sdp) B = Some pa' \<and>
         getPeer (createOffer eb b A) A = Some pb \<and> getPeer (handleOffer eb' b A sdp') A = Some pb' \<and>
         isPolite pa = (A < B) \<and> isPolite pa' = (A < B) \<and>
         isPolite pb = (B < A) \<and> isPolite pb' = (B < A) \<and>
         (A < B) \<noteq> (B < A))) \<and>
   (getPeer m q = Some p \<longrightarrow> createPeerConnection m q r = m) \<and>
   (getPeer m q = Some p \<and> getPeer (step env m e) q = Some p' \<longrightarrow> isPolite p' = isPolite p)"
proof -
  have one: "A \<noteq> B \<and> myId a = A \<and> myId b = B \<and> getPeer a B = None \<and> getPeer b A = None \<longrightarrow>
      (\<exists>pa pa' pb pb'.
         getPeer (createOffer ea a B) B = Some pa \<and> getPeer (handleOffer ea' a B sdp) B = Some pa' \<and>
         getPeer (createOffer eb b A) A = Some pb \<and> getPeer (handleOffer eb' b A sdp') A = Some pb' \<and>
         isPolite pa = (A < B) \<and> isPolite pa' = (A < B) \<and>
         isPolite pb = (B < A) \<and> isPolite pb' = (B < A) \<and>
         (A < B) \<noteq> (B < A))"
  proof
    assume h: "A \<noteq> B \<and> myId a = A \<and> myId b = B \<and> getPeer a B = None \<and> getPeer b A = None"
    from h createOffer_new_session [of a B ea]
    obtain pa where 1: "getPeer (createOffer ea a B) B = Some pa" "isPolite pa = (A < B)"
      by (auto simp: keeps_def freshPeer_def)
    from h handleOffer_new_session [of a B ea' sdp]
    obtain pa' where 2: "getPeer (handleOffer ea' a B sdp) B = Some pa'" "isPolite pa' = (A < B)"
      by (auto simp: keeps_def freshPeer_def)
    from h createOffer_new_session [of b A eb]
    obtain pb where 3: "getPeer (createOffer eb b A) A = Some pb" "isPolite pb = (B < A)"
      by (auto simp: keeps_def freshPeer_def)
    from h handleOffer_new_session [of b A eb' sdp']
    obtain pb' where 4: "getPeer (handleOffer eb' b A sdp') A = Some pb'" "isPolite pb' = (B < A)"
      by (auto simp: keeps_def freshPeer_def)
    from h have "(A < B) \<noteq> (B < A)" by auto
    with 1 2 3 4 show "\<exists>pa pa' pb pb'.
         getPeer (createOffer ea a B) B = Some pa \<and> getPeer (handleOffer ea' a B sdp) B = Some pa' \<and>
         getPeer (createOffer eb b A) A = Some pb \<and> getPeer (handleOffer eb' b A sdp') A = Some pb' \<and>
         isPolite pa = (A < B) \<and> isPolite pa' = (A < B) \<and>
         isPolite pb = (B < A) \<and> isPolite pb' = (B < A) \<and>
         (A < B) \<noteq> (B < A)" by blast
  qed
  have two: "getPeer m q = Some p \<longrightarrow> createPeerConnection m q r = m"
    by (simp add: createPeerConnection_def)
  have three: "getPeer m q = Some p \<and> getPeer (step env m e) q = Some p' \<longrightarrow> isPolite p' = isPolite p"
    using step_session [of env m e q p'] by (auto simp: keeps_def)
  from one two three show ?thesis by blast
qed

theorem polite_role_assignment_witness:
  "\<exists>pa pc pa2.
     getPeer (createOffer quietEnvironment aliceManager ''carl'') ''carl'' = Some pa \<and> isPolite pa \<and>
     getPeer (handleOffer quietEnvironment carlManager ''alice'' \<lparr>sdpType = OfferKind, sdpBody = ''v=0''\<rparr>)
       ''alice'' = Some pc \<and> \<not> isPolite pc \<and>
     getPeer (step quietEnvironment (createOffer quietEnvironment aliceManager ''carl'')
                (Frame (Welcome ''zed'' (Some [''carl''])))) ''carl'' = Some pa2 \<and> isPolite pa2 \<and>
     createPeerConnection (createOffer quietEnvironment aliceManager ''carl'') ''carl'' False
       = createOffer quietEnvironment aliceManager ''carl''"
proof -
  let ?o = "\<lparr>sdpType = OfferKind, sdpBody = ''v=0''\<rparr>"
  let ?m1 = "createOffer quietEnvironment aliceManager ''carl''"
  let ?e = "Frame (Welcome ''zed'' (Some [''carl'']))"
  have h: "''alice'' \<noteq> ''carl'' \<and> myId aliceManager = ''alice'' \<and> myId carlManager = ''carl'' \<and>
      getPeer aliceManager ''carl'' = None \<and> getPeer carlManager ''alice'' = None"
    by (simp add: manager_defs)
  from polite_role_assignment [where A = "''alice''" and B = "''carl''" and a = aliceManager
      and b = carlManager and ea = quietEnvironment and eb' = quietEnvironment and sdp' = ?o,
      THEN conjunct1] h
  obtain pa pc where 1: "getPeer ?m1 ''carl'' = Some pa" "isPolite pa = (''alice'' < ''carl'')"
    and 2: "getPeer (handleOffer quietEnvironment carlManager ''alice'' ?o) ''alice'' = Some pc"
      "isPolite pc = (''carl'' < ''alice'')"
    by blast
  obtain pa2 where 3: "getPeer (step quietEnvironment ?m1 ?e) ''carl'' = Some pa2"
    by (simp add: manager_defs transport_defs)
  from polite_role_assignment [where m = ?m1 and q = "''carl''" and p = pa and p' = pa2
      and env = quietEnvironment and e = ?e, THEN conjunct2, THEN conjunct2] 1 3
  have 4: "isPolite pa2 = isPolite pa" by blast
  from polite_role_assignment [where m = ?m1 and q = "''carl''" and p = pa and r = False,
      THEN conjunct2, THEN conjunct1] 1
  have 5: "createPeerConnection ?m1 ''carl'' False = ?m1" by blast
  from 1 2 3 4 5 show ?thesis by simp
qed

section \<open>The local identifier\<close>

lemma myId_createPeerConnection [simp]: "myId (createPeerConnection m peerId polite) = myId m"
  by (simp add: createPeerConnection_def split: option.splits)

lemma myId_send [simp]:
  "myId (sendToSignalingServer m message) = myId m"
  "myId (sendIfAny m msg) = myId m"
  "myId (notify n m) = myId m"
  by (simp_all add: sendToSignalingServer_def sendIfAny_def notify_def split: option.splits)

lemma myId_attachLocalAudio [simp]: "myId (attachLocalAudio env m peerId) = myId m"
  by (simp add: attachLocalAudio_def split: option.splits list.splits)

lemma myId_guardedOffer [simp]: "myId (guardedOffer env m peerId) = myId m"
  by (simp add: guardedOffer_def Let_def split: option.splits prod.splits)

lemma myId_renegotiate [simp]: "myId (renegotiate env m peerId) = myId m"
  by (simp add: renegotiate_def split: option.splits)

lemma myId_createOffer [simp]: "myId (createOffer env m peerId) = myId m"
  by (simp add: createOffer_def Let_def split: option.splits)

lemma myId_handleOffer [simp]: "myId (handleOffer env m peerId sdp) = myId m"
  by (simp add: handleOffer_def Let_def split: option.splits prod.splits)

lemma myId_handleAnswer [simp]: "myId (handleAnswer env m peerId sdp) = myId m"
  by (simp add: handleAnswer_def split: option.splits)

lemma myId_handleIceCandidate [simp]: "myId (handleIceCandidate env m peerId candidate) = myId m"
  by (simp add: handleIceCandidate_def split: option.splits)

lemma myId_removePeer [simp]: "myId (removePeer m peerId) = myId m"
  by (simp add: removePeer_def notify_def split: option.splits)

lemma myId_connectToUsers [simp]: "myId (connectToUsers env m us) = myId m"
  by (induction us arbitrary: m) simp_all

lemma myId_fold_attach [simp]:
  "myId (fold (\<lambda>peerId m1. renegotiate env (attachLocalAudio env m1 peerId) peerId) ks m) = myId m"
  by (induction ks arbitrary: m) simp_all

lemma myId_initLocalStream [simp]: "myId (initLocalStream env m captured processed) = myId m"
  by (simp add: initLocalStream_def addTracksToAllPeers_def Let_def streamToUse_def split: option.splits)

lemma myId_toggleMic [simp]: "myId (toggleMic m enabled) = myId m"
  by (simp add: toggleMic_def sendMicStatus_def Let_def split: option.splits)

lemma myId_handleSignalingMessage [simp]: "myId (handleSignalingMessage env m data) = myId m"
  by (cases data) simp_all

lemma myId_step: "\<not> assignsIdentifier e \<Longrightarrow> myId (step env m e) = myId m"
proof (cases e)
  case (Frame data)
  assume "\<not> assignsIdentifier e"
  with Frame show ?thesis
    by (cases data) (simp_all add: onmessage_def Let_def)
qed (simp_all add: disconnect_def split: option.splits)

text \<open>
  Claim C6, as stated, fails: a second \<^verbatim>\<open>welcome\<close> that carries an identifier replaces the
  value \<^verbatim>\<open>getMyId\<close> returns.
\<close>

theorem second_welcome_counterexample:
  "getMyId (onmessage quietEnvironment newWebRTCManager (Welcome ''alice'' None)) = ''alice'' \<and>
   getMyId (onmessage quietEnvironment
              (onmessage quietEnvironment newWebRTCManager (Welcome ''alice'' None))
              (Welcome ''zed'' None)) = ''zed''"
  by (simp add: manager_defs)

text \<open>
  Claim C6, amended. A \<^verbatim>\<open>welcome\<close> frame that carries an identifier sets the local
  identifier to it, and nothing else changes the identifier: an event that is not such a
  frame leaves \<^verbatim>\<open>getMyId\<close> as it was, and so does every sequence of such events.
\<close>

theorem identifier_assigned_by_welcome:
  "(ident \<noteq> [] \<longrightarrow> getMyId (onmessage env m (Welcome ident users)) = ident) \<and>
   (\<not> assignsIdentifier e \<longrightarrow> getMyId (step env m e) = getMyId m) \<and>
   ((\<forall>x\<in>set es. \<not> assignsIdentifier (snd x)) \<longrightarrow> getMyId (run m es) = getMyId m)"
proof -
  have a: "ident \<noteq> [] \<longrightarrow> getMyId (onmessage env m (Welcome ident users)) = ident"
    by (simp add: onmessage_def getMyId_def Let_def split: option.splits)
  have b: "\<not> assignsIdentifier e \<longrightarrow> getMyId (step env m e) = getMyId m"
    by (simp add: getMyId_def myId_step)
  have "(\<forall>x\<in>set es. \<not> assignsIdentifier (snd x)) \<Longrightarrow> myId (run m es) = myId m"
  proof (induction es arbitrary: m)
    case Nil
    show ?case by simp
  next
    case (Cons x es)
    obtain env' e' where x: "x = (env', e')" by (cases x)
    with Cons.prems have "myId (step env' m e') = myId m" by (simp add: myId_step)
    with Cons x show ?case by simp
  qed
  then have c: "(\<forall>x\<in>set es. \<not> assignsIdentifier (snd x)) \<longrightarrow> getMyId (run m es) = getMyId m"
    by (simp add: getMyId_def)
  from a b c show ?thesis by blast
qed

theorem identifier_assigned_by_welcome_witness:
  "getMyId (onmessage quietEnvironment newWebRTCManager (Welcome ''alice'' (Some [''bob'']))) = ''alice'' \<and>
   getMyId (step quietEnvironment aliceManager (Frame (Welcome [] (Some [''bob''])))) = ''alice'' \<and>
   getMyId (run aliceManager
      [(quietEnvironment, Frame (UserConnectedFrame ''bob'')),
       (quietEnvironment, Frame (AnswerFrame ''bob'' \<lparr>sdpType = AnswerKind, sdpBody = ''v=1''\<rparr>)),
       (quietEnvironment, ToggleMic True),
       (quietEnvironment, Frame (UserDisconnectedFrame ''bob'')),
       (quietEnvironment, Disconnect)]) = ''alice''"
proof -
  let ?es = "[(quietEnvironment, Frame (UserConnectedFrame ''bob'')),
       (quietEnvironment, Frame (AnswerFrame ''bob'' \<lparr>sdpType = AnswerKind, sdpBody = ''v=1''\<rparr>)),
       (quietEnvironment, ToggleMic True),
       (quietEnvironment, Frame (UserDisconnectedFrame ''bob'')),
       (quietEnvironment, Disconnect)]"
  have i: "getMyId aliceManager = ''alice''" by (simp add: manager_defs)
  have "getMyId (onmessage quietEnvironment newWebRTCManager (Welcome ''alice'' (Some [''bob'']))) = ''alice''"
    using identifier_assigned_by_welcome [where ident = "''alice''", THEN conjunct1] by simp
  moreover have "getMyId (step quietEnvironment aliceManager (Frame (Welcome [] (Some [''bob''])))) = ''alice''"
    using identifier_assigned_by_welcome [where e = "Frame (Welcome [] (Some [''bob'']))"
        and m = aliceManager, THEN conjunct2, THEN conjunct1] i by simp
  moreover have "getMyId (run aliceManager ?es) = ''alice''"
    using identifier_assigned_by_welcome [where es = ?es and m = aliceManager,
        THEN conjunct2, THEN conjunct2] i by simp
  ultimately show ?thesis by blast
qed

section \<open>The \<^verbatim>\<open>makingOffer\<close> flag\<close>

text \<open>
  Claim C4. Whatever the transport does, \<^verbatim>\<open>createOffer\<close> and \<^verbatim>\<open>renegotiate\<close> leave the
  \<^verbatim>\<open>makingOffer\<close> flag of every session as they found it, and a session they create has
  it cleared: they start an offer only for a session whose flag is clear, the offer is
  built and sent with the flag set (\<open>guardedOffer\<close> runs \<open>offerAttempt\<close> on the session
  with the flag set), and the flag is cleared again on every path out of the \<^verbatim>\<open>try\<close>,
  whether a step was rejected or not. So no state the manager reaches from its initial
  state, between two events, has a session with \<^verbatim>\<open>makingOffer\<close> set.
\<close>

theorem makingOffer_always_cleared:
  "(getPeer (createOffer env m peerId) q = Some p' \<longrightarrow>
      makingOffer p' = (case getPeer m q of Some p \<Rightarrow> makingOffer p | None \<Rightarrow> False)) \<and>
   (getPeer (renegotiate env m peerId) q = Some p' \<longrightarrow>
      makingOffer p' = (case getPeer m q of Some p \<Rightarrow> makingOffer p | None \<Rightarrow> False)) \<and>
   (getPeer m peerId = Some p0 \<longrightarrow>
      getPeer (guardedOffer env m peerId) peerId =
        Some ((fst (offerAttempt env peerId (p0\<lparr>makingOffer := True\<rparr>)))\<lparr>makingOffer := False\<rparr>)) \<and>
   (getPeer (run newWebRTCManager es) q = Some p'' \<longrightarrow> \<not> makingOffer p'')"
proof (intro conjI impI)
  assume g: "getPeer (createOffer env m peerId) q = Some p'"
  from grows_session [OF grows_createOffer g]
  show "makingOffer p' = (case getPeer m q of Some p \<Rightarrow> makingOffer p | None \<Rightarrow> False)"
    by (auto simp: keeps_def freshPeer_def split: option.splits)
next
  assume g: "getPeer (renegotiate env m peerId) q = Some p'"
  from grows_session [OF grows_renegotiate g]
  show "makingOffer p' = (case getPeer m q of Some p \<Rightarrow> makingOffer p | None \<Rightarrow> False)"
    by (auto simp: keeps_def freshPeer_def split: option.splits)
next
  assume "getPeer m peerId = Some p0"
  then show "getPeer (guardedOffer env m peerId) peerId =
        Some ((fst (offerAttempt env peerId (p0\<lparr>makingOffer := True\<rparr>)))\<lparr>makingOffer := False\<rparr>)"
    by (simp add: getPeer_guardedOffer)
next
  assume "getPeer (run newWebRTCManager es) q = Some p''"
  then show "\<not> makingOffer p''" by (simp add: reachable_sessions)
qed

theorem makingOffer_always_cleared_witness:
  "\<exists>p1 p2 p3.
     getPeer (createOffer (rejectingEnvironment SetLocalDescription) aliceManager ''bob'') ''bob'' = Some p1 \<and>
     makingOffer p1 = False \<and>
     getPeer (run newWebRTCManager
        [(quietEnvironment, SocketState (Some Open)),
         (quietEnvironment, Frame (Welcome ''alice'' (Some [''bob''])))]) ''bob'' = Some p2 \<and>
     makingOffer p2 = False \<and> signalingState (connection p2) = HaveLocalOffer \<and>
     getPeer (renegotiate (rejectingEnvironment CreateOffer)
        (handleOffer quietEnvironment aliceManager ''bob'' \<lparr>sdpType = OfferKind, sdpBody = ''v=0''\<rparr>) ''bob'')
        ''bob'' = Some p3 \<and>
     makingOffer p3 = False \<and>
     map_option makingOffer
       (getPeer (guardedOffer (rejectingEnvironment SetLocalDescription)
                  (createPeerConnection aliceManager ''bob'' True) ''bob'') ''bob'') = Some False"
proof -
  let ?m1 = "createOffer (rejectingEnvironment SetLocalDescription) aliceManager ''bob''"
  let ?es = "[(quietEnvironment, SocketState (Some Open)),
         (quietEnvironment, Frame (Welcome ''alice'' (Some [''bob''])))]"
  let ?m0 = "handleOffer quietEnvironment aliceManager ''bob'' \<lparr>sdpType = OfferKind, sdpBody = ''v=0''\<rparr>"
  let ?m3 = "renegotiate (rejectingEnvironment CreateOffer) ?m0 ''bob''"
  obtain p1 where g1: "getPeer ?m1 ''bob'' = Some p1"
    by (simp add: manager_defs transport_defs)
  obtain p2 where g2: "getPeer (run newWebRTCManager ?es) ''bob'' = Some p2"
      and s2: "signalingState (connection p2) = HaveLocalOffer"
    by (simp add: manager_defs transport_defs)
  obtain p3 where g3: "getPeer ?m3 ''bob'' = Some p3"
    by (simp add: manager_defs transport_defs)
  have a0: "getPeer aliceManager ''bob'' = None" by (simp add: manager_defs)
  have b0: "\<exists>p. getPeer ?m0 ''bob'' = Some p \<and> \<not> makingOffer p"
    by (simp add: manager_defs transport_defs)
  have "makingOffer p1 = False"
    using makingOffer_always_cleared [of "rejectingEnvironment SetLocalDescription" aliceManager
        "''bob''" "''bob''" p1] g1 a0 by simp
  moreover have "makingOffer p2 = False"
    using makingOffer_always_cleared [of _ _ _ "''bob''" _ _ ?es p2] g2 by simp
  moreover have "makingOffer p3 = False"
    using makingOffer_always_cleared [of "rejectingEnvironment CreateOffer" ?m0 "''bob''" "''bob''" p3]
      g3 b0 by auto
  moreover have "map_option makingOffer
       (getPeer (guardedOffer (rejectingEnvironment SetLocalDescription)
                  (createPeerConnection aliceManager ''bob'' True) ''bob'') ''bob'') = Some False"
  proof -
    have f: "getPeer (createPeerConnection aliceManager ''bob'' True) ''bob'' = Some (freshPeer ''bob'' True)"
      using a0 by (simp add: getPeer_createPeerConnection)
    from makingOffer_always_cleared [where m = "createPeerConnection aliceManager ''bob'' True"
        and peerId = "''bob''" and ?p0.0 = "freshPeer ''bob'' True"
        and env = "rejectingEnvironment SetLocalDescription",
        THEN conjunct2, THEN conjunct2, THEN conjunct1] f
    show ?thesis by simp
  qed
  ultimately show ?thesis using g1 g2 g3 s2 by blast
qed

section \<open>The audio transceiver of a session\<close>

text \<open>
  Claim C7. \<^verbatim>\<open>createPeerConnection\<close> gives a new session one transceiver, of direction
  \<^verbatim>\<open>sendrecv\<close>, and stores its sender. For a session that has a sender,
  \<^verbatim>\<open>attachLocalAudio\<close> leaves the connection as it is (it never calls \<^verbatim>\<open>addTrack\<close>) and
  either keeps the sender or replaces the track of that same sender. In every state the
  manager reaches from its initial state, whatever the platform decides, every session has
  its sender, and the transceivers of its connection are the one the manager made followed
  by the receive-only ones the platform added for remote offers: exactly one transceiver
  is outbound, for as long as the session lives.
\<close>

theorem single_audio_transceiver:
  "(getPeer m peerId = None \<longrightarrow>
      (\<exists>p. getPeer (createPeerConnection m peerId polite) peerId = Some p \<and>
           audioSender p = Some \<lparr>track = None\<rparr> \<and> transceivers (connection p) = [SendRecv])) \<and>
   (getPeer m peerId = Some p0 \<and> audioSender p0 = Some sender \<longrightarrow>
      (\<exists>p'. getPeer (attachLocalAudio env m peerId) peerId = Some p' \<and>
            connection p' = connection p0 \<and>
            (audioSender p' = Some sender \<or>
             (\<exists>t ts. streamToUse m = Some (t # ts) \<and> audioSender p' = Some (sender\<lparr>track := Some t\<rparr>))))) \<and>
   (getPeer (run newWebRTCManager es) q = Some p'' \<longrightarrow>
      audioSender p'' \<noteq> None \<and>
      (\<exists>k. transceivers (connection p'') = SendRecv # replicate k RecvOnly))"
proof -
  have a: "getPeer m peerId = None \<longrightarrow>
      (\<exists>p. getPeer (createPeerConnection m peerId polite) peerId = Some p \<and>
           audioSender p = Some \<lparr>track = None\<rparr> \<and> transceivers (connection p) = [SendRecv])"
    by (simp add: getPeer_createPeerConnection freshPeer_def addTransceiver_def
        newRTCPeerConnection_def)
  have b: "getPeer m peerId = Some p0 \<and> audioSender p0 = Some sender \<longrightarrow>
      (\<exists>p'. getPeer (attachLocalAudio env m peerId) peerId = Some p' \<and>
            connection p' = connection p0 \<and>
            (audioSender p' = Some sender \<or>
             (\<exists>t ts. streamToUse m = Some (t # ts) \<and> audioSender p' = Some (sender\<lparr>track := Some t\<rparr>))))"
    by (auto simp: attachLocalAudio_def getPeer_modifyPeer split: option.splits list.splits)
  have c: "getPeer (run newWebRTCManager es) q = Some p'' \<longrightarrow>
      audioSender p'' \<noteq> None \<and>
      (\<exists>k. transceivers (connection p'') = SendRecv # replicate k RecvOnly)"
    using reachable_sessions [of es q p''] by (simp add: receiveOnlyAdded_def)
  from a b c show ?thesis by blast
qed

theorem single_audio_transceiver_witness:
  "\<exists>p p' p''.
     getPeer (createPeerConnection aliceManager ''bob'' True) ''bob'' = Some p \<and>
     audioSender p = Some \<lparr>track = None\<rparr> \<and> transceivers (connection p) = [SendRecv] \<and>
     getPeer (attachLocalAudio quietEnvironment
        ((createPeerConnection aliceManager ''bob'' True)\<lparr>localStream := Some [''mic'']\<rparr>) ''bob'') ''bob''
       = Some p' \<and>
     audioSender p' = Some \<lparr>track = Some ''mic''\<rparr> \<and> connection p' = connection p \<and>
     getPeer (run newWebRTCManager
        [(quietEnvironment, Frame (Welcome ''carl'' (Some []))),
         (quietEnvironment, InitLocalStream (Some [''raw'']) (Some [''mic''])),
         (quietEnvironment, Frame (OfferFrame ''bob'' \<lparr>sdpType = OfferKind, sdpBody = ''v=0''\<rparr>))]) ''bob''
       = Some p'' \<and>
     audioSender p'' = Some \<lparr>track = Some ''mic''\<rparr> \<and>
     transceivers (connection p'') = [SendRecv, RecvOnly] \<and>
     (\<exists>k. transceivers (connection p'') = SendRecv # replicate k RecvOnly)"
proof -
  let ?m1 = "createPeerConnection aliceManager ''bob'' True"
  let ?m2 = "?m1\<lparr>localStream := Some [''mic'']\<rparr>"
  let ?es = "[(quietEnvironment, Frame (Welcome ''carl'' (Some []))),
         (quietEnvironment, InitLocalStream (Some [''raw'']) (Some [''mic''])),
         (quietEnvironment, Frame (OfferFrame ''bob'' \<lparr>sdpType = OfferKind, sdpBody = ''v=0''\<rparr>))]"
  have n: "getPeer aliceManager ''bob'' = None" by (simp add: manager_defs)
  from single_audio_transceiver [where m = aliceManager and peerId = "''bob''" and polite = True,
      THEN conjunct1] n
  obtain p where g1: "getPeer ?m1 ''bob'' = Some p" and s1: "audioSender p = Some \<lparr>track = None\<rparr>"
    and t1: "transceivers (connection p) = [SendRecv]"
    by blast
  have g2: "getPeer ?m2 ''bob'' = Some p" using g1 by (simp add: getPeer_def)
  from single_audio_transceiver [where m = ?m2 and peerId = "''bob''" and ?p0.0 = p
      and sender = "\<lparr>track = None\<rparr>" and env = quietEnvironment, THEN conjunct2, THEN conjunct1] g2 s1
  obtain p' where g3: "getPeer (attachLocalAudio quietEnvironment ?m2 ''bob'') ''bob'' = Some p'"
    and c3: "connection p' = connection p"
    by blast
  have e3: "audioSender p' = Some \<lparr>track = Some ''mic''\<rparr>"
    using g3 by (auto simp: manager_defs transport_defs)
  obtain p'' where g4: "getPeer (run newWebRTCManager ?es) ''bob'' = Some p''"
    and a4: "audioSender p'' = Some \<lparr>track = Some ''mic''\<rparr>"
    and t4: "transceivers (connection p'') = [SendRecv, RecvOnly]"
    by (simp add: manager_defs transport_defs)
  from single_audio_transceiver [where es = ?es and q = "''bob''" and p'' = p'',
      THEN conjunct2, THEN conjunct2] g4
  have "\<exists>k. transceivers (connection p'') = SendRecv # replicate k RecvOnly" by blast
  with g1 s1 t1 g3 c3 e3 g4 a4 t4 show ?thesis by blast
qed

section \<open>Muting\<close>

text \<open>
  Claim C8. \<^verbatim>\<open>toggleMic\<close> leaves the session table as it is (role, \<^verbatim>\<open>makingOffer\<close>,
  signaling phase, buffered candidates and transport of every session), and what it puts on
  the signaling channel is never an offer or an answer: the whole of its effect is the
  \<^verbatim>\<open>enabled\<close> flag of the tracks of the local stream, the recorded mute state and the one
  \<^verbatim>\<open>mic-status\<close> message that \<^verbatim>\<open>sendToSignalingServer\<close> puts on an open socket.
\<close>

theorem toggleMic_only_effects:
  "toggleMic m enabled =
     m\<lparr>trackEnabled :=
         (\<lambda>t. if t \<in> set (case streamToUse m of Some s \<Rightarrow> s | None \<Rightarrow> []) then enabled
              else trackEnabled m t),
       isMicEnabled := enabled,
       sent := sent m @ (if ws m = Some Open then [MicStatusMsg enabled] else [])\<rparr>
   \<and> peers (toggleMic m enabled) = peers m"
  by (simp add: toggleMic_def sendMicStatus_def sendToSignalingServer_def Let_def fold_upd
      split: option.splits)

text \<open>
  Claim C10, as stated, fails: with a socket that is not open \<^verbatim>\<open>toggleMic\<close> records the
  state and sends nothing.
\<close>

theorem toggleMic_socket_not_open_counterexample:
  "isMicOn (toggleMic (newWebRTCManager\<lparr>ws := Some SocketClosed\<rparr>) True) \<and>
   sent (toggleMic (newWebRTCManager\<lparr>ws := Some SocketClosed\<rparr>) True) = []"
  by (simp add: manager_defs)

text \<open>
  Claim C10, amended. For every boolean argument \<^verbatim>\<open>toggleMic\<close> records the requested
  state, so that \<^verbatim>\<open>isMicOn\<close> returns it; when the signaling socket is open it sends one
  \<^verbatim>\<open>mic-status\<close> message carrying that state, and otherwise it sends nothing; with no
  local stream it touches no track.
\<close>

theorem toggleMic_records_state:
  "isMicOn (toggleMic m enabled) = enabled \<and>
   (ws m = Some Open \<longrightarrow> sent (toggleMic m enabled) = sent m @ [MicStatusMsg enabled]) \<and>
   (ws m \<noteq> Some Open \<longrightarrow> sent (toggleMic m enabled) = sent m) \<and>
   (streamToUse m = None \<longrightarrow> trackEnabled (toggleMic m enabled) = trackEnabled m)"
  by (simp add: toggleMic_def sendMicStatus_def sendToSignalingServer_def isMicOn_def Let_def
      split: option.splits)

theorem toggleMic_records_state_witness:
  "isMicOn (toggleMic aliceManager True) \<and>
   sent (toggleMic aliceManager True) = [MicStatusMsg True] \<and>
   trackEnabled (toggleMic aliceManager True) = trackEnabled aliceManager \<and>
   sent (toggleMic (aliceManager\<lparr>ws := None\<rparr>) False) = []"
proof -
  have o: "ws aliceManager = Some Open" "streamToUse aliceManager = None" "sent aliceManager = []"
    by (simp_all add: manager_defs)
  have c: "ws (aliceManager\<lparr>ws := None\<rparr>) \<noteq> Some Open" "sent (aliceManager\<lparr>ws := None\<rparr>) = []"
    by (simp_all add: manager_defs)
  from toggleMic_records_state [of aliceManager True] o
  have "isMicOn (toggleMic aliceManager True) \<and>
     sent (toggleMic aliceManager True) = [MicStatusMsg True] \<and>
     trackEnabled (toggleMic aliceManager True) = trackEnabled aliceManager" by simp
  moreover from toggleMic_records_state [of "aliceManager\<lparr>ws := None\<rparr>" False] c
  have "sent (toggleMic (aliceManager\<lparr>ws := None\<rparr>) False) = []" by simp
  ultimately show ?thesis by blast
qed

section \<open>Answers\<close>

text \<open>
  Claim C9. An answer from a remote identifier that has no session changes nothing, and
  \<^verbatim>\<open>handleAnswer\<close> creates no session for it; an offer from the same unknown remote does
  create one.
\<close>

theorem handleAnswer_unknown_sender:
  "getPeer m peerId = None \<Longrightarrow>
     handleAnswer env m peerId sdp = m \<and>
     getPeer (handleAnswer env m peerId sdp) peerId = None \<and>
     getPeer (handleOffer env m peerId sdp') peerId \<noteq> None"
  by (auto simp: handleAnswer_def handleOffer_def Let_def getPeer_createPeerConnection
      getPeer_modifyPeer hasPeer_attachLocalAudio split: option.splits prod.splits)

theorem handleAnswer_unknown_sender_witness:
  "getPeer newWebRTCManager ''bob'' = None \<and>
   handleAnswer quietEnvironment newWebRTCManager ''bob'' \<lparr>sdpType = AnswerKind, sdpBody = ''v=0''\<rparr>
     = newWebRTCManager \<and>
   getPeer (handleOffer quietEnvironment newWebRTCManager ''bob'' \<lparr>sdpType = OfferKind, sdpBody = ''v=0''\<rparr>)
     ''bob'' \<noteq> None"
  using handleAnswer_unknown_sender [of newWebRTCManager "''bob''" quietEnvironment
      "\<lparr>sdpType = AnswerKind, sdpBody = ''v=0''\<rparr>" "\<lparr>sdpType = OfferKind, sdpBody = ''v=0''\<rparr>"]
  by (simp add: getPeer_def newWebRTCManager_def)

lemma remoteDescription_applied [simp]:
  "remoteDescription (c\<lparr>appliedCandidates := xs\<rparr>) = remoteDescription c"
  by (simp add: remoteDescription_def split: option.splits)

lemma addIceCandidates_accepted:
  "\<forall>x\<in>set xs. \<not> rej x \<Longrightarrow> signalingState c \<noteq> Closed \<Longrightarrow> remoteDescription c \<noteq> None \<Longrightarrow>
     addIceCandidates rej c xs = (c\<lparr>appliedCandidates := appliedCandidates c @ xs\<rparr>, True)"
proof (induction xs arbitrary: c)
  case Nil
  then show ?case by simp
next
  case (Cons x xs)
  let ?c1 = "c\<lparr>appliedCandidates := appliedCandidates c @ [x]\<rparr>"
  have "rtc_addIceCandidate (rej x) c x = Some ?c1"
    using Cons.prems by (simp add: rtc_addIceCandidate_def)
  moreover have "addIceCandidates rej ?c1 xs = (?c1\<lparr>appliedCandidates := appliedCandidates ?c1 @ xs\<rparr>, True)"
    using Cons.prems by (intro Cons.IH) simp_all
  ultimately show ?case by simp
qed

lemma processPending_accepted:
  assumes "\<forall>x\<in>set (pendingCandidates p). \<not> rejects env peerId (AddIceCandidate x)"
    and "signalingState (connection p) \<noteq> Closed" and "remoteDescription (connection p) \<noteq> None"
  shows "processPending env peerId p =
     (p\<lparr>connection := (connection p)\<lparr>appliedCandidates := appliedCandidates (connection p) @ pendingCandidates p\<rparr>,
        pendingCandidates := []\<rparr>, True)"
proof (cases "pendingCandidates p")
  case Nil
  then show ?thesis by (simp add: processPending_def)
next
  case (Cons x xs)
  with addIceCandidates_accepted [OF assms(1) assms(2) assms(3)] show ?thesis
    by (simp add: processPending_def)
qed

text \<open>
  Claim C5. In any signaling phase other than \<^verbatim>\<open>have-local-offer\<close> an answer leaves the
  state as it is; an answer that changes the state found the session in
  \<^verbatim>\<open>have-local-offer\<close>; and in that phase an answer the transport accepts becomes the
  remote description, after which the buffered candidates the transport accepts have been
  applied in their order and the buffer is empty.
\<close>

theorem handleAnswer_only_in_have_local_offer:
  "(getPeer m peerId = Some p \<and> signalingState (connection p) \<noteq> HaveLocalOffer \<longrightarrow>
      handleAnswer env m peerId sdp = m) \<and>
   (handleAnswer env m peerId sdp \<noteq> m \<longrightarrow>
      (\<exists>p0. getPeer m peerId = Some p0 \<and> signalingState (connection p0) = HaveLocalOffer)) \<and>
   (getPeer m peerId = Some p \<and> signalingState (connection p) = HaveLocalOffer \<and>
    sdpType sdp = AnswerKind \<and> \<not> rejects env peerId SetRemoteDescription \<and>
    (\<forall>x\<in>set (pendingCandidates p). \<not> rejects env peerId (AddIceCandidate x)) \<longrightarrow>
      (\<exists>p'. getPeer (handleAnswer env m peerId sdp) peerId = Some p' \<and>
            remoteDescription (connection p') = Some sdp \<and>
            signalingState (connection p') = Stable \<and>
            pendingCandidates p' = [] \<and>
            appliedCandidates (connection p') = appliedCandidates (connection p) @ pendingCandidates p))"
proof -
  have a: "getPeer m peerId = Some p \<and> signalingState (connection p) \<noteq> HaveLocalOffer \<longrightarrow>
      handleAnswer env m peerId sdp = m"
    by (simp add: handleAnswer_def)
  have b: "handleAnswer env m peerId sdp \<noteq> m \<longrightarrow>
      (\<exists>p0. getPeer m peerId = Some p0 \<and> signalingState (connection p0) = HaveLocalOffer)"
    by (auto simp: handleAnswer_def split: option.splits if_splits)
  have c: "getPeer m peerId = Some p \<and> signalingState (connection p) = HaveLocalOffer \<and>
    sdpType sdp = AnswerKind \<and> \<not> rejects env peerId SetRemoteDescription \<and>
    (\<forall>x\<in>set (pendingCandidates p). \<not> rejects env peerId (AddIceCandidate x)) \<longrightarrow>
      (\<exists>p'. getPeer (handleAnswer env m peerId sdp) peerId = Some p' \<and>
            remoteDescription (connection p') = Some sdp \<and>
            signalingState (connection p') = Stable \<and>
            pendingCandidates p' = [] \<and>
            appliedCandidates (connection p') = appliedCandidates (connection p) @ pendingCandidates p)"
  proof
    assume h: "getPeer m peerId = Some p \<and> signalingState (connection p) = HaveLocalOffer \<and>
      sdpType sdp = AnswerKind \<and> \<not> rejects env peerId SetRemoteDescription \<and>
      (\<forall>x\<in>set (pendingCandidates p). \<not> rejects env peerId (AddIceCandidate x))"
    define c1 where "c1 = (connection p)\<lparr>signalingState := Stable,
                         currentRemoteDescription := Some sdp,
                         currentLocalDescription := pendingLocalDescription (connection p),
                         pendingLocalDescription := None,
                         pendingRemoteDescription := None\<rparr>"
    have r: "rtc_setRemoteDescription (rejects env peerId SetRemoteDescription)
      (unmatchedSections env peerId) (connection p) sdp = Some c1"
      using h by (simp add: rtc_setRemoteDescription_def c1_def)
    have pp: "processPending env peerId (p\<lparr>connection := c1\<rparr>) =
        (p\<lparr>connection := c1\<lparr>appliedCandidates := appliedCandidates c1 @ pendingCandidates p\<rparr>,
           pendingCandidates := []\<rparr>, True)"
      using processPending_accepted [of "p\<lparr>connection := c1\<rparr>" env peerId] h
      by (simp add: c1_def remoteDescription_def)
    show "\<exists>p'. getPeer (handleAnswer env m peerId sdp) peerId = Some p' \<and>
            remoteDescription (connection p') = Some sdp \<and>
            signalingState (connection p') = Stable \<and>
            pendingCandidates p' = [] \<and>
            appliedCandidates (connection p') = appliedCandidates (connection p) @ pendingCandidates p"
      using h r pp by (simp add: handleAnswer_def getPeer_modifyPeer c1_def remoteDescription_def)
  qed
  from a b c show ?thesis by blast
qed

theorem handleAnswer_only_in_have_local_offer_witness:
  "\<exists>p'. getPeer (handleAnswer quietEnvironment aliceAwaitingAnswer ''bob''
              \<lparr>sdpType = AnswerKind, sdpBody = ''v=1''\<rparr>) ''bob'' = Some p' \<and>
        remoteDescription (connection p') = Some \<lparr>sdpType = AnswerKind, sdpBody = ''v=1''\<rparr> \<and>
        signalingState (connection p') = Stable \<and>
        pendingCandidates p' = [] \<and>
        appliedCandidates (connection p') = [''c1'', ''c2''] \<and>
        handleAnswer quietEnvironment
          (handleAnswer quietEnvironment aliceAwaitingAnswer ''bob'' \<lparr>sdpType = AnswerKind, sdpBody = ''v=1''\<rparr>)
          ''bob'' \<lparr>sdpType = AnswerKind, sdpBody = ''v=2''\<rparr>
        = handleAnswer quietEnvironment aliceAwaitingAnswer ''bob'' \<lparr>sdpType = AnswerKind, sdpBody = ''v=1''\<rparr> \<and>
        handleAnswer quietEnvironment aliceAwaitingAnswer ''bob'' \<lparr>sdpType = AnswerKind, sdpBody = ''v=1''\<rparr>
          \<noteq> aliceAwaitingAnswer \<and>
        map_option (signalingState \<circ> connection) (getPeer aliceAwaitingAnswer ''bob'')
          = Some HaveLocalOffer"
proof -
  let ?a = "\<lparr>sdpType = AnswerKind, sdpBody = ''v=1''\<rparr>"
  let ?m1 = "handleAnswer quietEnvironment aliceAwaitingAnswer ''bob'' ?a"
  obtain p where g: "getPeer aliceAwaitingAnswer ''bob'' = Some p"
    and s: "signalingState (connection p) = HaveLocalOffer"
    and pc: "pendingCandidates p = [''c1'', ''c2'']" and ac: "appliedCandidates (connection p) = []"
    by (simp add: manager_defs transport_defs)
  have q: "\<not> rejects quietEnvironment ''bob'' SetRemoteDescription \<and>
     (\<forall>x\<in>set (pendingCandidates p). \<not> rejects quietEnvironment ''bob'' (AddIceCandidate x))"
    by (simp add: quietEnvironment_def)
  from handleAnswer_only_in_have_local_offer [where m = aliceAwaitingAnswer and peerId = "''bob''"
      and p = p and env = quietEnvironment and sdp = ?a, THEN conjunct2, THEN conjunct2] g s q
  obtain p' where g1: "getPeer ?m1 ''bob'' = Some p'"
    and r1: "remoteDescription (connection p') = Some ?a"
    and s1: "signalingState (connection p') = Stable"
    and e1: "pendingCandidates p' = []"
    and a1: "appliedCandidates (connection p') = appliedCandidates (connection p) @ pendingCandidates p"
    by auto
  from handleAnswer_only_in_have_local_offer [where m = ?m1 and peerId = "''bob''"
      and p = p' and env = quietEnvironment and sdp = "\<lparr>sdpType = AnswerKind, sdpBody = ''v=2''\<rparr>",
      THEN conjunct1] g1 s1
  have d: "handleAnswer quietEnvironment ?m1 ''bob'' \<lparr>sdpType = AnswerKind, sdpBody = ''v=2''\<rparr> = ?m1"
    by simp
  have ne: "?m1 \<noteq> aliceAwaitingAnswer"
  proof
    assume "?m1 = aliceAwaitingAnswer"
    with g g1 have "p' = p" by simp
    with e1 pc show False by simp
  qed
  from handleAnswer_only_in_have_local_offer [where m = aliceAwaitingAnswer and peerId = "''bob''"
      and env = quietEnvironment and sdp = ?a, THEN conjunct2, THEN conjunct1] ne
  have "map_option (signalingState \<circ> connection) (getPeer aliceAwaitingAnswer ''bob'')
          = Some HaveLocalOffer"
    by auto
  with g1 r1 s1 e1 a1 pc ac d ne show ?thesis by simp
qed

section \<open>Inbound offers\<close>

lemma answerAttempt_drains:
  assumes k: "sdpType sdp = OfferKind"
    and st: "signalingState (connection p) = Stable \<or> signalingState (connection p) = HaveLocalOffer \<or>
             signalingState (connection p) = HaveRemoteOffer"
    and nr: "\<not> rejects env peerId SetRemoteDescription"
    and nc: "\<forall>x\<in>set (pendingCandidates p). \<not> rejects env peerId (AddIceCandidate x)"
    and e: "answerAttempt env peerId sdp p = (p1, msg)"
  shows "pendingCandidates p1 = [] \<and>
         appliedCandidates (connection p1) = appliedCandidates (connection p) @ pendingCandidates p \<and>
         remoteDescription (connection p1) = Some sdp \<and> settled (connection p1) \<and>
         audioSender p1 = audioSender p \<and>
         (\<not> rejects env peerId CreateAnswer \<and> \<not> rejects env peerId SetLocalDescription \<longrightarrow>
            msg = Some (AnswerMsg peerId \<lparr>sdpType = AnswerKind, sdpBody = generated env peerId\<rparr>) \<and>
            signalingState (connection p1) = Stable \<and>
            localDescription (connection p1) = Some \<lparr>sdpType = AnswerKind, sdpBody = generated env peerId\<rparr>)"
proof -
  obtain c1 where r: "rtc_setRemoteDescription (rejects env peerId SetRemoteDescription)
      (unmatchedSections env peerId) (connection p) sdp = Some c1"
    and s1: "signalingState c1 = HaveRemoteOffer" and pr: "pendingRemoteDescription c1 = Some sdp"
    and a1: "appliedCandidates c1 = appliedCandidates (connection p)"
    using k st nr by (auto simp: rtc_setRemoteDescription_def)
  have rd: "remoteDescription c1 = Some sdp" using pr by (simp add: remoteDescription_def)
  let ?c2 = "c1\<lparr>appliedCandidates := appliedCandidates c1 @ pendingCandidates p\<rparr>"
  let ?p2 = "p\<lparr>connection := ?c2, pendingCandidates := []\<rparr>"
  have pp: "processPending env peerId (p\<lparr>connection := c1\<rparr>) = (?p2, True)"
    using processPending_accepted [of "p\<lparr>connection := c1\<rparr>" env peerId] nc s1 rd by simp
  have base: "settled ?c2" "remoteDescription ?c2 = Some sdp"
    using s1 pr rd by (simp_all add: settled_def)
  show ?thesis
  proof (cases "rejects env peerId CreateAnswer")
    case True
    with r pp e have "p1 = ?p2" by (simp add: answerAttempt_def rtc_createAnswer_def)
    with base a1 True show ?thesis by simp
  next
    case False
    let ?a = "\<lparr>sdpType = AnswerKind, sdpBody = generated env peerId\<rparr>"
    have ca: "rtc_createAnswer (rejects env peerId CreateAnswer) (generated env peerId) ?c2 = Some ?a"
      using False s1 by (simp add: rtc_createAnswer_def)
    show ?thesis
    proof (cases "rejects env peerId SetLocalDescription")
      case True
      with r pp e ca have "p1 = ?p2" by (simp add: answerAttempt_def rtc_setLocalDescription_def)
      with base a1 True show ?thesis by simp
    next
      case nl: False
      let ?c3 = "?c2\<lparr>signalingState := Stable,
                         currentLocalDescription := Some ?a,
                         currentRemoteDescription := pendingRemoteDescription ?c2,
                         pendingLocalDescription := None,
                         pendingRemoteDescription := None\<rparr>"
      have sl: "rtc_setLocalDescription (rejects env peerId SetLocalDescription) ?c2 ?a = Some ?c3"
        using nl s1 by (simp add: rtc_setLocalDescription_def)
      from r pp e ca sl have "p1 = ?p2\<lparr>connection := ?c3\<rparr>" and "msg = Some (AnswerMsg peerId ?a)"
        by (simp_all add: answerAttempt_def)
      with a1 pr show ?thesis
        by (simp add: settled_def remoteDescription_def localDescription_def)
    qed
  qed
qed

lemma attachLocalAudio_session:
  assumes "getPeer m peerId = Some p"
  shows "\<exists>p2. getPeer (attachLocalAudio env m peerId) peerId = Some p2 \<and>
           pendingCandidates p2 = pendingCandidates p \<and> isPolite p2 = isPolite p \<and>
           makingOffer p2 = makingOffer p \<and>
           signalingState (connection p2) = signalingState (connection p) \<and>
           appliedCandidates (connection p2) = appliedCandidates (connection p) \<and>
           (\<forall>s t ts. audioSender p = Some s \<and> streamToUse m = Some (t # ts) \<and>
               \<not> rejects env peerId ReplaceTrack \<longrightarrow> audioSender p2 = Some (s\<lparr>track := Some t\<rparr>))"
  using assms
  by (auto simp: attachLocalAudio_def getPeer_modifyPeer rtc_addTrack_def
      split: option.splits list.splits)

lemma sent_attachLocalAudio [simp]:
  "sent (attachLocalAudio env m peerId) = sent m" "ws (attachLocalAudio env m peerId) = ws m"
  by (simp_all add: attachLocalAudio_def split: option.splits list.splits)

lemma handleOffer_existing:
  assumes "getPeer m peerId = Some p" and "\<not> ignoreOffer p"
    and "getPeer (attachLocalAudio env m peerId) peerId = Some p2"
  shows "handleOffer env m peerId sdp =
     sendIfAny (modifyPeer peerId (\<lambda>x. fst (answerAttempt env peerId sdp p2)) (attachLocalAudio env m peerId))
       (snd (answerAttempt env peerId sdp p2))"
  using assms by (simp add: handleOffer_def Let_def split: prod.splits)


lemma addIceCandidates_prefix:
  "signalingState c \<noteq> Closed \<Longrightarrow> remoteDescription c \<noteq> None \<Longrightarrow>
     addIceCandidates rej c xs =
       (c\<lparr>appliedCandidates := appliedCandidates c @ takeWhile (\<lambda>x. \<not> rej x) xs\<rparr>,
        \<forall>x\<in>set xs. \<not> rej x)"
proof (induction xs arbitrary: c)
  case Nil
  then show ?case by simp
next
  case (Cons x xs)
  show ?case
  proof (cases "rej x")
    case True
    then show ?thesis by (simp add: rtc_addIceCandidate_def)
  next
    case False
    let ?c1 = "c\<lparr>appliedCandidates := appliedCandidates c @ [x]\<rparr>"
    have "rtc_addIceCandidate (rej x) c x = Some ?c1"
      using False Cons.prems by (simp add: rtc_addIceCandidate_def)
    moreover have "addIceCandidates rej ?c1 xs =
       (?c1\<lparr>appliedCandidates := appliedCandidates ?c1 @ takeWhile (\<lambda>x. \<not> rej x) xs\<rparr>,
        \<forall>x\<in>set xs. \<not> rej x)"
      using Cons.prems by (intro Cons.IH) simp_all
    ultimately show ?thesis using False by simp
  qed
qed

lemma processPending_prefix:
  assumes "signalingState (connection p) \<noteq> Closed" and "remoteDescription (connection p) \<noteq> None"
  shows "processPending env peerId p =
     (if \<forall>x\<in>set (pendingCandidates p). \<not> rejects env peerId (AddIceCandidate x)
      then (p\<lparr>connection := (connection p)\<lparr>appliedCandidates :=
                 appliedCandidates (connection p) @ pendingCandidates p\<rparr>,
              pendingCandidates := []\<rparr>, True)
      else (p\<lparr>connection := (connection p)\<lparr>appliedCandidates :=
                 appliedCandidates (connection p) @
                 takeWhile (\<lambda>x. \<not> rejects env peerId (AddIceCandidate x)) (pendingCandidates p)\<rparr>\<rparr>,
            False))"
proof (cases "pendingCandidates p")
  case Nil
  then show ?thesis by (simp add: processPending_def)
next
  case (Cons x xs)
  let ?rej = "\<lambda>x. rejects env peerId (AddIceCandidate x)"
  have e: "addIceCandidates ?rej (connection p) (pendingCandidates p) =
       ((connection p)\<lparr>appliedCandidates := appliedCandidates (connection p) @
            takeWhile (\<lambda>x. \<not> ?rej x) (pendingCandidates p)\<rparr>,
        \<forall>x\<in>set (pendingCandidates p). \<not> ?rej x)"
    by (rule addIceCandidates_prefix [OF assms])
  have n: "length (pendingCandidates p) > 0" using Cons by simp
  show ?thesis
  proof (cases "\<forall>x\<in>set (pendingCandidates p). \<not> ?rej x")
    case True
    then have "takeWhile (\<lambda>x. \<not> ?rej x) (pendingCandidates p) = pendingCandidates p"
      by (simp add: takeWhile_eq_all_conv)
    with e True n show ?thesis by (simp add: processPending_def)
  next
    case False
    with e n show ?thesis by (simp add: processPending_def)
  qed
qed


lemma answerAttempt_candidate_rejected:
  assumes k: "sdpType sdp = OfferKind"
    and st: "signalingState (connection p) = Stable \<or> signalingState (connection p) = HaveLocalOffer \<or>
             signalingState (connection p) = HaveRemoteOffer"
    and nr: "\<not> rejects env peerId SetRemoteDescription"
    and rc: "\<exists>x\<in>set (pendingCandidates p). rejects env peerId (AddIceCandidate x)"
    and e: "answerAttempt env peerId sdp p = (p1, msg)"
  shows "msg = None \<and> remoteDescription (connection p1) = Some sdp \<and>
         signalingState (connection p1) = HaveRemoteOffer \<and>
         appliedCandidates (connection p1) =
           appliedCandidates (connection p) @
           takeWhile (\<lambda>x. \<not> rejects env peerId (AddIceCandidate x)) (pendingCandidates p) \<and>
         pendingCandidates p1 = pendingCandidates p \<and> audioSender p1 = audioSender p"
proof -
  obtain c1 where r: "rtc_setRemoteDescription (rejects env peerId SetRemoteDescription)
      (unmatchedSections env peerId) (connection p) sdp = Some c1"
    and s1: "signalingState c1 = HaveRemoteOffer" and pr: "pendingRemoteDescription c1 = Some sdp"
    and a1: "appliedCandidates c1 = appliedCandidates (connection p)"
    using k st nr by (auto simp: rtc_setRemoteDescription_def)
  have rd: "remoteDescription c1 = Some sdp" using pr by (simp add: remoteDescription_def)
  have pp: "processPending env peerId (p\<lparr>connection := c1\<rparr>) =
      (p\<lparr>connection := c1\<lparr>appliedCandidates := appliedCandidates c1 @
           takeWhile (\<lambda>x. \<not> rejects env peerId (AddIceCandidate x)) (pendingCandidates p)\<rparr>\<rparr>, False)"
    using processPending_prefix [of "p\<lparr>connection := c1\<rparr>" env peerId] rc s1 rd by auto
  from r pp e have "p1 = p\<lparr>connection := c1\<lparr>appliedCandidates := appliedCandidates c1 @
           takeWhile (\<lambda>x. \<not> rejects env peerId (AddIceCandidate x)) (pendingCandidates p)\<rparr>\<rparr>"
    and "msg = None"
    by (simp_all add: answerAttempt_def)
  with s1 rd a1 show ?thesis by simp
qed



lemma handleOffer_result:
  assumes "getPeer m peerId = Some p" and "\<not> ignoreOffer p"
    and "getPeer (attachLocalAudio env m peerId) peerId = Some p2"
    and "answerAttempt env peerId sdp p2 = (p1, msg)"
  shows "getPeer (handleOffer env m peerId sdp) peerId = Some p1 \<and>
         sent (handleOffer env m peerId sdp) =
           sent m @ (case msg of Some a \<Rightarrow> (if ws m = Some Open then [a] else []) | None \<Rightarrow> [])"
proof -
  have e: "handleOffer env m peerId sdp =
      sendIfAny (modifyPeer peerId (\<lambda>x. p1) (attachLocalAudio env m peerId)) msg"
    using handleOffer_existing [OF assms(1) assms(2) assms(3), of sdp] assms(4) by simp
  have a: "getPeer (handleOffer env m peerId sdp) peerId = Some p1"
    using assms(3) by (simp add: e getPeer_modifyPeer)
  have b: "sent (handleOffer env m peerId sdp) =
           sent m @ (case msg of Some a \<Rightarrow> (if ws m = Some Open then [a] else []) | None \<Rightarrow> [])"
    by (simp add: e sendIfAny_def sendToSignalingServer_def split: option.splits)
  from a b show ?thesis by simp
qed




section \<open>Buffered candidates\<close>

lemma handleAnswer_result:
  assumes g: "getPeer m peerId = Some p" and s: "signalingState (connection p) = HaveLocalOffer"
    and k: "sdpType sdp = AnswerKind" and nr: "\<not> rejects env peerId SetRemoteDescription"
  shows "\<exists>c1. remoteDescription c1 = Some sdp \<and> signalingState c1 = Stable \<and>
           appliedCandidates c1 = appliedCandidates (connection p) \<and>
           getPeer (handleAnswer env m peerId sdp) peerId =
             Some (fst (processPending env peerId (p\<lparr>connection := c1\<rparr>)))"
proof -
  define c1 where "c1 = (connection p)\<lparr>signalingState := Stable,
                       currentRemoteDescription := Some sdp,
                       currentLocalDescription := pendingLocalDescription (connection p),
                       pendingLocalDescription := None,
                       pendingRemoteDescription := None\<rparr>"
  have r: "rtc_setRemoteDescription (rejects env peerId SetRemoteDescription)
      (unmatchedSections env peerId) (connection p) sdp = Some c1"
    using s k nr by (simp add: rtc_setRemoteDescription_def c1_def)
  have "getPeer (handleAnswer env m peerId sdp) peerId =
             Some (fst (processPending env peerId (p\<lparr>connection := c1\<rparr>)))"
    using g s r by (simp add: handleAnswer_def getPeer_modifyPeer)
  moreover have "remoteDescription c1 = Some sdp" "signalingState c1 = Stable"
    "appliedCandidates c1 = appliedCandidates (connection p)"
    by (simp_all add: c1_def remoteDescription_def)
  ultimately show ?thesis by blast
qed

text \<open>
  Claim C3, as stated, fails in three ways. A candidate from a remote that has no session
  is dropped by \<^verbatim>\<open>handleIceCandidate\<close>: it is in no buffer, and the offer the same remote
  sends afterwards finds no candidate to apply. When the answer is set as the remote
  description and the transport rejects the first buffered candidate, the second one stays
  in the buffer, never applied, while a candidate that arrives later is applied ahead of
  it. And a candidate that arrives after the drain and that the transport rejects is
  neither applied nor buffered.
\<close>

theorem drain_stops_at_rejected_candidate_counterexample:
  "getPeer aliceManager ''bob'' = None \<and>
   handleIceCandidate quietEnvironment aliceManager ''bob'' (Some ''c1'') = aliceManager \<and>
   map_option (\<lambda>p. (remoteDescription (connection p), appliedCandidates (connection p), pendingCandidates p))
     (getPeer (handleOffer quietEnvironment
        (handleIceCandidate quietEnvironment aliceManager ''bob'' (Some ''c1'')) ''bob''
        \<lparr>sdpType = OfferKind, sdpBody = ''v=1''\<rparr>) ''bob'')
     = Some (Some \<lparr>sdpType = OfferKind, sdpBody = ''v=1''\<rparr>, [], []) \<and>
   map_option pendingCandidates (getPeer aliceAwaitingAnswer ''bob'') = Some [''c1'', ''c2''] \<and>
   map_option (remoteDescription \<circ> connection)
     (getPeer (handleAnswer (rejectingEnvironment (AddIceCandidate ''c1'')) aliceAwaitingAnswer ''bob''
                 \<lparr>sdpType = AnswerKind, sdpBody = ''v=1''\<rparr>) ''bob'')
     = Some (Some \<lparr>sdpType = AnswerKind, sdpBody = ''v=1''\<rparr>) \<and>
   map_option (appliedCandidates \<circ> connection)
     (getPeer (handleAnswer (rejectingEnvironment (AddIceCandidate ''c1'')) aliceAwaitingAnswer ''bob''
                 \<lparr>sdpType = AnswerKind, sdpBody = ''v=1''\<rparr>) ''bob'') = Some [] \<and>
   map_option pendingCandidates
     (getPeer (handleAnswer (rejectingEnvironment (AddIceCandidate ''c1'')) aliceAwaitingAnswer ''bob''
                 \<lparr>sdpType = AnswerKind, sdpBody = ''v=1''\<rparr>) ''bob'') = Some [''c1'', ''c2''] \<and>
   map_option (appliedCandidates \<circ> connection)
     (getPeer (handleIceCandidate quietEnvironment
        (handleAnswer (rejectingEnvironment (AddIceCandidate ''c1'')) aliceAwaitingAnswer ''bob''
                 \<lparr>sdpType = AnswerKind, sdpBody = ''v=1''\<rparr>) ''bob'' (Some ''c3'')) ''bob'') = Some [''c3''] \<and>
   map_option (\<lambda>p. (appliedCandidates (connection p), pendingCandidates p))
     (getPeer (handleIceCandidate (rejectingEnvironment (AddIceCandidate ''c3''))
        (handleAnswer quietEnvironment aliceAwaitingAnswer ''bob''
                 \<lparr>sdpType = AnswerKind, sdpBody = ''v=1''\<rparr>) ''bob'' (Some ''c3'')) ''bob'')
     = Some ([''c1'', ''c2''], [])"
  by (simp add: manager_defs transport_defs)

text \<open>
  Claim C3, amended. A candidate from a remote that has no session leaves the state as it
  is. A candidate for a session that has no remote description yet is appended to the
  session's buffer. When \<^verbatim>\<open>handleAnswer\<close> or \<^verbatim>\<open>handleOffer\<close> sets the remote description
  and the transport accepts each buffered candidate, the buffered candidates have been
  applied in their order of arrival, the buffer is empty and the connection is settled.
  No event fills the buffer of a session that is settled with an empty buffer, for as long
  as the session is in the table; a candidate that arrives for such a session, its
  connection not closed, is applied at once if the transport accepts it and is dropped if
  not. When \<^verbatim>\<open>handleAnswer\<close> or \<^verbatim>\<open>handleOffer\<close> sets the remote description and the
  transport rejects a buffered candidate, the buffered candidates ahead of the first
  rejected one have been applied in their order, the others have not, and the buffer is as
  it was.
\<close>

theorem candidates_buffered_then_drained:
  "(getPeer m peerId = None \<longrightarrow> handleIceCandidate env m peerId candidate = m) \<and>
   (getPeer m peerId = Some p \<and> remoteDescription (connection p) = None \<longrightarrow>
      getPeer (handleIceCandidate env m peerId (Some cand)) peerId =
        Some (p\<lparr>pendingCandidates := pendingCandidates p @ [cand]\<rparr>)) \<and>
   (getPeer m peerId = Some p \<and> signalingState (connection p) = HaveLocalOffer \<and>
    sdpType sdp = AnswerKind \<and> \<not> rejects env peerId SetRemoteDescription \<and>
    (\<forall>x\<in>set (pendingCandidates p). \<not> rejects env peerId (AddIceCandidate x)) \<longrightarrow>
      (\<exists>p'. getPeer (handleAnswer env m peerId sdp) peerId = Some p' \<and>
            appliedCandidates (connection p') = appliedCandidates (connection p) @ pendingCandidates p \<and>
            pendingCandidates p' = [] \<and> settled (connection p'))) \<and>
   (getPeer m peerId = Some p \<and>
    (isPolite p \<or> (\<not> makingOffer p \<and> signalingState (connection p) = Stable)) \<and>
    sdpType sdp = OfferKind \<and>
    (signalingState (connection p) = Stable \<or> signalingState (connection p) = HaveLocalOffer \<or>
     signalingState (connection p) = HaveRemoteOffer) \<and>
    \<not> rejects env peerId SetRemoteDescription \<and>
    (\<forall>x\<in>set (pendingCandidates p). \<not> rejects env peerId (AddIceCandidate x)) \<longrightarrow>
      (\<exists>p'. getPeer (handleOffer env m peerId sdp) peerId = Some p' \<and>
            appliedCandidates (connection p') = appliedCandidates (connection p) @ pendingCandidates p \<and>
            pendingCandidates p' = [] \<and> settled (connection p'))) \<and>
   (getPeer m q = Some p \<and> settled (connection p) \<and> pendingCandidates p = [] \<and>
    getPeer (step env m e) q = Some p' \<longrightarrow>
      settled (connection p') \<and> pendingCandidates p' = []) \<and>
   (getPeer m peerId = Some p \<and> settled (connection p) \<and> signalingState (connection p) \<noteq> Closed \<longrightarrow>
      getPeer (handleIceCandidate env m peerId (Some cand)) peerId =
        Some (if rejects env peerId (AddIceCandidate cand) then p
              else p\<lparr>connection := (connection p)\<lparr>appliedCandidates := appliedCandidates (connection p) @ [cand]\<rparr>\<rparr>)) \<and>
   (getPeer m peerId = Some p \<and> signalingState (connection p) = HaveLocalOffer \<and>
    sdpType sdp = AnswerKind \<and> \<not> rejects env peerId SetRemoteDescription \<and>
    (\<exists>x\<in>set (pendingCandidates p). rejects env peerId (AddIceCandidate x)) \<longrightarrow>
      (\<exists>p'. getPeer (handleAnswer env m peerId sdp) peerId = Some p' \<and>
            remoteDescription (connection p') = Some sdp \<and>
            appliedCandidates (connection p') =
              appliedCandidates (connection p) @
              takeWhile (\<lambda>x. \<not> rejects env peerId (AddIceCandidate x)) (pendingCandidates p) \<and>
            pendingCandidates p' = pendingCandidates p)) \<and>
   (getPeer m peerId = Some p \<and>
    (isPolite p \<or> (\<not> makingOffer p \<and> signalingState (connection p) = Stable)) \<and>
    sdpType sdp = OfferKind \<and>
    (signalingState (connection p) = Stable \<or> signalingState (connection p) = HaveLocalOffer \<or>
     signalingState (connection p) = HaveRemoteOffer) \<and>
    \<not> rejects env peerId SetRemoteDescription \<and>
    (\<exists>x\<in>set (pendingCandidates p). rejects env peerId (AddIceCandidate x)) \<longrightarrow>
      (\<exists>p'. getPeer (handleOffer env m peerId sdp) peerId = Some p' \<and>
            remoteDescription (connection p') = Some sdp \<and>
            appliedCandidates (connection p') =
              appliedCandidates (connection p) @
              takeWhile (\<lambda>x. \<not> rejects env peerId (AddIceCandidate x)) (pendingCandidates p) \<and>
            pendingCandidates p' = pendingCandidates p))"
proof -
  have zero: "getPeer m peerId = None \<longrightarrow> handleIceCandidate env m peerId candidate = m"
    by (simp add: handleIceCandidate_def)
  have one: "getPeer m peerId = Some p \<and> remoteDescription (connection p) = None \<longrightarrow>
      getPeer (handleIceCandidate env m peerId (Some cand)) peerId =
        Some (p\<lparr>pendingCandidates := pendingCandidates p @ [cand]\<rparr>)"
    by (simp add: handleIceCandidate_def getPeer_modifyPeer)
  have two: "getPeer m peerId = Some p \<and> signalingState (connection p) = HaveLocalOffer \<and>
    sdpType sdp = AnswerKind \<and> \<not> rejects env peerId SetRemoteDescription \<and>
    (\<forall>x\<in>set (pendingCandidates p). \<not> rejects env peerId (AddIceCandidate x)) \<longrightarrow>
      (\<exists>p'. getPeer (handleAnswer env m peerId sdp) peerId = Some p' \<and>
            appliedCandidates (connection p') = appliedCandidates (connection p) @ pendingCandidates p \<and>
            pendingCandidates p' = [] \<and> settled (connection p'))"
  proof
    assume h: "getPeer m peerId = Some p \<and> signalingState (connection p) = HaveLocalOffer \<and>
      sdpType sdp = AnswerKind \<and> \<not> rejects env peerId SetRemoteDescription \<and>
      (\<forall>x\<in>set (pendingCandidates p). \<not> rejects env peerId (AddIceCandidate x))"
    with handleAnswer_result [of m peerId p sdp env]
    obtain c1 where c: "remoteDescription c1 = Some sdp" "signalingState c1 = Stable"
      "appliedCandidates c1 = appliedCandidates (connection p)"
      and r: "getPeer (handleAnswer env m peerId sdp) peerId =
             Some (fst (processPending env peerId (p\<lparr>connection := c1\<rparr>)))"
      by blast
    have "processPending env peerId (p\<lparr>connection := c1\<rparr>) =
        (p\<lparr>connection := c1\<lparr>appliedCandidates := appliedCandidates c1 @ pendingCandidates p\<rparr>,
           pendingCandidates := []\<rparr>, True)"
      using processPending_prefix [of "p\<lparr>connection := c1\<rparr>" env peerId] h c by simp
    with r c show "\<exists>p'. getPeer (handleAnswer env m peerId sdp) peerId = Some p' \<and>
            appliedCandidates (connection p') = appliedCandidates (connection p) @ pendingCandidates p \<and>
            pendingCandidates p' = [] \<and> settled (connection p')"
      by (simp add: settled_def)
  qed
  have prep: "\<exists>p2 p1 msg.
      pendingCandidates p2 = pendingCandidates p \<and>
      signalingState (connection p2) = signalingState (connection p) \<and>
      appliedCandidates (connection p2) = appliedCandidates (connection p) \<and>
      answerAttempt env peerId sdp p2 = (p1, msg) \<and>
      getPeer (handleOffer env m peerId sdp) peerId = Some p1"
    if g: "getPeer m peerId = Some p"
      and ni: "isPolite p \<or> (\<not> makingOffer p \<and> signalingState (connection p) = Stable)"
  proof -
    from ni have i: "\<not> ignoreOffer p" by (auto simp: ignoreOffer_def offerCollision_def)
    from attachLocalAudio_session [OF g, of env]
    obtain p2 where g2: "getPeer (attachLocalAudio env m peerId) peerId = Some p2"
      and f: "pendingCandidates p2 = pendingCandidates p"
        "signalingState (connection p2) = signalingState (connection p)"
        "appliedCandidates (connection p2) = appliedCandidates (connection p)"
      by blast
    obtain p1 msg where e: "answerAttempt env peerId sdp p2 = (p1, msg)"
      by (cases "answerAttempt env peerId sdp p2")
    from handleOffer_result [OF g i g2 e] f e show ?thesis by blast
  qed
  have three: "getPeer m peerId = Some p \<and>
    (isPolite p \<or> (\<not> makingOffer p \<and> signalingState (connection p) = Stable)) \<and>
    sdpType sdp = OfferKind \<and>
    (signalingState (connection p) = Stable \<or> signalingState (connection p) = HaveLocalOffer \<or>
     signalingState (connection p) = HaveRemoteOffer) \<and>
    \<not> rejects env peerId SetRemoteDescription \<and>
    (\<forall>x\<in>set (pendingCandidates p). \<not> rejects env peerId (AddIceCandidate x)) \<longrightarrow>
      (\<exists>p'. getPeer (handleOffer env m peerId sdp) peerId = Some p' \<and>
            appliedCandidates (connection p') = appliedCandidates (connection p) @ pendingCandidates p \<and>
            pendingCandidates p' = [] \<and> settled (connection p'))"
  proof
    assume h: "getPeer m peerId = Some p \<and>
      (isPolite p \<or> (\<not> makingOffer p \<and> signalingState (connection p) = Stable)) \<and>
      sdpType sdp = OfferKind \<and>
      (signalingState (connection p) = Stable \<or> signalingState (connection p) = HaveLocalOffer \<or>
       signalingState (connection p) = HaveRemoteOffer) \<and>
      \<not> rejects env peerId SetRemoteDescription \<and>
      (\<forall>x\<in>set (pendingCandidates p). \<not> rejects env peerId (AddIceCandidate x))"
    from h prep obtain p2 p1 msg where
      f: "pendingCandidates p2 = pendingCandidates p"
        "signalingState (connection p2) = signalingState (connection p)"
        "appliedCandidates (connection p2) = appliedCandidates (connection p)"
      and e: "answerAttempt env peerId sdp p2 = (p1, msg)"
      and r: "getPeer (handleOffer env m peerId sdp) peerId = Some p1"
      by blast
    have d: "pendingCandidates p1 = [] \<and>
         appliedCandidates (connection p1) = appliedCandidates (connection p2) @ pendingCandidates p2 \<and>
         remoteDescription (connection p1) = Some sdp \<and> settled (connection p1)"
      using h f answerAttempt_drains [OF _ _ _ _ e] by simp
    with f r show "\<exists>p'. getPeer (handleOffer env m peerId sdp) peerId = Some p' \<and>
            appliedCandidates (connection p') = appliedCandidates (connection p) @ pendingCandidates p \<and>
            pendingCandidates p' = [] \<and> settled (connection p')"
      by simp
  qed
  have four: "getPeer m q = Some p \<and> settled (connection p) \<and> pendingCandidates p = [] \<and>
    getPeer (step env m e) q = Some p' \<longrightarrow>
      settled (connection p') \<and> pendingCandidates p' = []"
    using step_session [of env m e q p'] by (auto simp: keeps_def)
  have five: "getPeer m peerId = Some p \<and> settled (connection p) \<and> signalingState (connection p) \<noteq> Closed \<longrightarrow>
      getPeer (handleIceCandidate env m peerId (Some cand)) peerId =
        Some (if rejects env peerId (AddIceCandidate cand) then p
              else p\<lparr>connection := (connection p)\<lparr>appliedCandidates := appliedCandidates (connection p) @ [cand]\<rparr>\<rparr>)"
    by (auto simp: handleIceCandidate_def getPeer_modifyPeer settled_def rtc_addIceCandidate_def)
  have six: "getPeer m peerId = Some p \<and> signalingState (connection p) = HaveLocalOffer \<and>
    sdpType sdp = AnswerKind \<and> \<not> rejects env peerId SetRemoteDescription \<and>
    (\<exists>x\<in>set (pendingCandidates p). rejects env peerId (AddIceCandidate x)) \<longrightarrow>
      (\<exists>p'. getPeer (handleAnswer env m peerId sdp) peerId = Some p' \<and>
            remoteDescription (connection p') = Some sdp \<and>
            appliedCandidates (connection p') =
              appliedCandidates (connection p) @
              takeWhile (\<lambda>x. \<not> rejects env peerId (AddIceCandidate x)) (pendingCandidates p) \<and>
            pendingCandidates p' = pendingCandidates p)"
  proof
    assume h: "getPeer m peerId = Some p \<and> signalingState (connection p) = HaveLocalOffer \<and>
      sdpType sdp = AnswerKind \<and> \<not> rejects env peerId SetRemoteDescription \<and>
      (\<exists>x\<in>set (pendingCandidates p). rejects env peerId (AddIceCandidate x))"
    with handleAnswer_result [of m peerId p sdp env]
    obtain c1 where c: "remoteDescription c1 = Some sdp" "signalingState c1 = Stable"
      "appliedCandidates c1 = appliedCandidates (connection p)"
      and r: "getPeer (handleAnswer env m peerId sdp) peerId =
             Some (fst (processPending env peerId (p\<lparr>connection := c1\<rparr>)))"
      by blast
    have "processPending env peerId (p\<lparr>connection := c1\<rparr>) =
        (p\<lparr>connection := c1\<lparr>appliedCandidates := appliedCandidates c1 @
             takeWhile (\<lambda>x. \<not> rejects env peerId (AddIceCandidate x)) (pendingCandidates p)\<rparr>\<rparr>, False)"
      using processPending_prefix [of "p\<lparr>connection := c1\<rparr>" env peerId] h c by auto
    with r c show "\<exists>p'. getPeer (handleAnswer env m peerId sdp) peerId = Some p' \<and>
            remoteDescription (connection p') = Some sdp \<and>
            appliedCandidates (connection p') =
              appliedCandidates (connection p) @
              takeWhile (\<lambda>x. \<not> rejects env peerId (AddIceCandidate x)) (pendingCandidates p) \<and>
            pendingCandidates p' = pendingCandidates p"
      by simp
  qed
  have seven: "getPeer m peerId = Some p \<and>
    (isPolite p \<or> (\<not> makingOffer p \<and> signalingState (connection p) = Stable)) \<and>
    sdpType sdp = OfferKind \<and>
    (signalingState (connection p) = Stable \<or> signalingState (connection p) = HaveLocalOffer \<or>
     signalingState (connection p) = HaveRemoteOffer) \<and>
    \<not> rejects env peerId SetRemoteDescription \<and>
    (\<exists>x\<in>set (pendingCandidates p). rejects env peerId (AddIceCandidate x)) \<longrightarrow>
      (\<exists>p'. getPeer (handleOffer env m peerId sdp) peerId = Some p' \<and>
            remoteDescription (connection p') = Some sdp \<and>
            appliedCandidates (connection p') =
              appliedCandidates (connection p) @
              takeWhile (\<lambda>x. \<not> rejects env peerId (AddIceCandidate x)) (pendingCandidates p) \<and>
            pendingCandidates p' = pendingCandidates p)"
  proof
    assume h: "getPeer m peerId = Some p \<and>
      (isPolite p \<or> (\<not> makingOffer p \<and> signalingState (connection p) = Stable)) \<and>
      sdpType sdp = OfferKind \<and>
      (signalingState (connection p) = Stable \<or> signalingState (connection p) = HaveLocalOffer \<or>
       signalingState (connection p) = HaveRemoteOffer) \<and>
      \<not> rejects env peerId SetRemoteDescription \<and>
      (\<exists>x\<in>set (pendingCandidates p). rejects env peerId (AddIceCandidate x))"
    from h prep obtain p2 p1 msg where
      f: "pendingCandidates p2 = pendingCandidates p"
        "signalingState (connection p2) = signalingState (connection p)"
        "appliedCandidates (connection p2) = appliedCandidates (connection p)"
      and e: "answerAttempt env peerId sdp p2 = (p1, msg)"
      and r: "getPeer (handleOffer env m peerId sdp) peerId = Some p1"
      by blast
    have "msg = None \<and> remoteDescription (connection p1) = Some sdp \<and>
         signalingState (connection p1) = HaveRemoteOffer \<and>
         appliedCandidates (connection p1) =
           appliedCandidates (connection p2) @
           takeWhile (\<lambda>x. \<not> rejects env peerId (AddIceCandidate x)) (pendingCandidates p2) \<and>
         pendingCandidates p1 = pendingCandidates p2 \<and> audioSender p1 = audioSender p2"
      using h f by (intro answerAttempt_candidate_rejected [OF _ _ _ _ e]) simp_all
    with f r show "\<exists>p'. getPeer (handleOffer env m peerId sdp) peerId = Some p' \<and>
            remoteDescription (connection p') = Some sdp \<and>
            appliedCandidates (connection p') =
              appliedCandidates (connection p) @
              takeWhile (\<lambda>x. \<not> rejects env peerId (AddIceCandidate x)) (pendingCandidates p) \<and>
            pendingCandidates p' = pendingCandidates p"
      by simp
  qed
  from zero one two three four five six seven show ?thesis by blast
qed

theorem candidates_buffered_then_drained_witness:
  "handleIceCandidate quietEnvironment aliceManager ''bob'' (Some ''c1'') = aliceManager \<and>
   map_option pendingCandidates
     (getPeer (handleIceCandidate quietEnvironment aliceAwaitingAnswer ''bob'' (Some ''c3'')) ''bob'')
     = Some [''c1'', ''c2'', ''c3''] \<and>
   (\<exists>p'. getPeer (handleAnswer quietEnvironment aliceAwaitingAnswer ''bob''
                    \<lparr>sdpType = AnswerKind, sdpBody = ''v=1''\<rparr>) ''bob'' = Some p' \<and>
         appliedCandidates (connection p') = [''c1'', ''c2''] \<and> pendingCandidates p' = [] \<and>
         map_option (appliedCandidates \<circ> connection)
           (getPeer (handleIceCandidate quietEnvironment
              (handleAnswer quietEnvironment aliceAwaitingAnswer ''bob''
                    \<lparr>sdpType = AnswerKind, sdpBody = ''v=1''\<rparr>) ''bob'' (Some ''c3'')) ''bob'')
           = Some [''c1'', ''c2'', ''c3''] \<and>
         getPeer (handleIceCandidate (rejectingEnvironment (AddIceCandidate ''c3''))
              (handleAnswer quietEnvironment aliceAwaitingAnswer ''bob''
                    \<lparr>sdpType = AnswerKind, sdpBody = ''v=1''\<rparr>) ''bob'' (Some ''c3'')) ''bob''
           = Some p' \<and>
         map_option pendingCandidates
           (getPeer (step (rejectingEnvironment (AddIceCandidate ''c3''))
              (handleAnswer quietEnvironment aliceAwaitingAnswer ''bob''
                    \<lparr>sdpType = AnswerKind, sdpBody = ''v=1''\<rparr>)
              (Frame (IceCandidateFrame ''bob'' (Some ''c3'')))) ''bob'')
           = Some []) \<and>
   (\<exists>p'. getPeer (handleOffer quietEnvironment aliceAwaitingAnswer ''bob''
                    \<lparr>sdpType = OfferKind, sdpBody = ''v=2''\<rparr>) ''bob'' = Some p' \<and>
         appliedCandidates (connection p') = [''c1'', ''c2''] \<and> pendingCandidates p' = []) \<and>
   (\<exists>p'. getPeer (handleAnswer (rejectingEnvironment (AddIceCandidate ''c2'')) aliceAwaitingAnswer ''bob''
                    \<lparr>sdpType = AnswerKind, sdpBody = ''v=1''\<rparr>) ''bob'' = Some p' \<and>
         remoteDescription (connection p') = Some \<lparr>sdpType = AnswerKind, sdpBody = ''v=1''\<rparr> \<and>
         appliedCandidates (connection p') = [''c1''] \<and> pendingCandidates p' = [''c1'', ''c2'']) \<and>
   (\<exists>p'. getPeer (handleOffer (rejectingEnvironment (AddIceCandidate ''c2'')) aliceAwaitingAnswer ''bob''
                    \<lparr>sdpType = OfferKind, sdpBody = ''v=2''\<rparr>) ''bob'' = Some p' \<and>
         remoteDescription (connection p') = Some \<lparr>sdpType = OfferKind, sdpBody = ''v=2''\<rparr> \<and>
         appliedCandidates (connection p') = [''c1''] \<and> pendingCandidates p' = [''c1'', ''c2''])"
proof -
  let ?ans = "\<lparr>sdpType = AnswerKind, sdpBody = ''v=1''\<rparr>"
  let ?off = "\<lparr>sdpType = OfferKind, sdpBody = ''v=2''\<rparr>"
  let ?m1 = "handleAnswer quietEnvironment aliceAwaitingAnswer ''bob'' ?ans"
  let ?e = "Frame (IceCandidateFrame ''bob'' (Some ''c3''))"
  let ?r3 = "rejectingEnvironment (AddIceCandidate ''c3'')"
  let ?r2 = "rejectingEnvironment (AddIceCandidate ''c2'')"
  have n: "getPeer aliceManager ''bob'' = None" by (simp add: manager_defs)
  obtain p where g: "getPeer aliceAwaitingAnswer ''bob'' = Some p"
    and s: "signalingState (connection p) = HaveLocalOffer"
    and rd: "remoteDescription (connection p) = None"
    and po: "isPolite p"
    and pc: "pendingCandidates p = [''c1'', ''c2'']" and ac: "appliedCandidates (connection p) = []"
    by (simp add: manager_defs transport_defs)
  have q: "\<not> rejects quietEnvironment ''bob'' SetRemoteDescription"
    "\<forall>x\<in>set (pendingCandidates p). \<not> rejects quietEnvironment ''bob'' (AddIceCandidate x)"
    "\<not> rejects quietEnvironment ''bob'' (AddIceCandidate ''c3'')"
    by (simp_all add: quietEnvironment_def)
  have r: "\<not> rejects ?r2 ''bob'' SetRemoteDescription"
    "\<exists>x\<in>set (pendingCandidates p). rejects ?r2 ''bob'' (AddIceCandidate x)"
    "takeWhile (\<lambda>x. \<not> rejects ?r2 ''bob'' (AddIceCandidate x)) [''c1'', ''c2''] = [''c1'']"
    "rejects ?r3 ''bob'' (AddIceCandidate ''c3'')"
    using pc by (simp_all add: rejectingEnvironment_def)
  from candidates_buffered_then_drained [where m = aliceManager and peerId = "''bob''"
      and env = quietEnvironment and candidate = "Some ''c1''", THEN conjunct1] n
  have 0: "handleIceCandidate quietEnvironment aliceManager ''bob'' (Some ''c1'') = aliceManager"
    by simp
  from candidates_buffered_then_drained [where m = aliceAwaitingAnswer and peerId = "''bob''"
      and p = p and env = quietEnvironment and cand = "''c3''", THEN conjunct2, THEN conjunct1] g rd
  have 1: "getPeer (handleIceCandidate quietEnvironment aliceAwaitingAnswer ''bob'' (Some ''c3'')) ''bob''
      = Some (p\<lparr>pendingCandidates := pendingCandidates p @ [''c3'']\<rparr>)" by simp
  from candidates_buffered_then_drained [where m = aliceAwaitingAnswer and peerId = "''bob''"
      and p = p and env = quietEnvironment and sdp = ?ans,
      THEN conjunct2, THEN conjunct2, THEN conjunct1] g s q
  obtain p' where 2: "getPeer ?m1 ''bob'' = Some p'"
    "appliedCandidates (connection p') = appliedCandidates (connection p) @ pendingCandidates p"
    "pendingCandidates p' = []" "settled (connection p')"
    by auto
  have nc: "signalingState (connection p') \<noteq> Closed"
    using 2(1) by (auto simp: manager_defs transport_defs)
  from candidates_buffered_then_drained [where m = ?m1 and peerId = "''bob''"
      and p = p' and env = quietEnvironment and cand = "''c3''",
      THEN conjunct2, THEN conjunct2, THEN conjunct2, THEN conjunct2, THEN conjunct2, THEN conjunct1]
    2 nc q
  have 3: "getPeer (handleIceCandidate quietEnvironment ?m1 ''bob'' (Some ''c3'')) ''bob'' =
        Some (p'\<lparr>connection := (connection p')\<lparr>appliedCandidates := appliedCandidates (connection p') @ [''c3'']\<rparr>\<rparr>)"
    by simp
  from candidates_buffered_then_drained [where m = ?m1 and peerId = "''bob''"
      and p = p' and env = ?r3 and cand = "''c3''",
      THEN conjunct2, THEN conjunct2, THEN conjunct2, THEN conjunct2, THEN conjunct2, THEN conjunct1]
    2 nc r
  have 9: "getPeer (handleIceCandidate ?r3 ?m1 ''bob'' (Some ''c3'')) ''bob'' = Some p'"
    by simp
  obtain p'' where 4: "getPeer (step ?r3 ?m1 ?e) ''bob'' = Some p''"
    by (simp add: manager_defs transport_defs)
  from candidates_buffered_then_drained [where m = ?m1 and q = "''bob''"
      and p = p' and env = ?r3 and e = ?e and p' = p'',
      THEN conjunct2, THEN conjunct2, THEN conjunct2, THEN conjunct2, THEN conjunct1] 2 4
  have 5: "pendingCandidates p'' = []" by simp
  from candidates_buffered_then_drained [where m = aliceAwaitingAnswer and peerId = "''bob''"
      and p = p and env = quietEnvironment and sdp = ?off,
      THEN conjunct2, THEN conjunct2, THEN conjunct2, THEN conjunct1] g s po q
  obtain p3 where 6: "getPeer (handleOffer quietEnvironment aliceAwaitingAnswer ''bob'' ?off) ''bob'' = Some p3"
    "appliedCandidates (connection p3) = appliedCandidates (connection p) @ pendingCandidates p"
    "pendingCandidates p3 = []"
    by auto
  from candidates_buffered_then_drained [where m = aliceAwaitingAnswer and peerId = "''bob''"
      and p = p and env = ?r2 and sdp = ?ans,
      THEN conjunct2, THEN conjunct2, THEN conjunct2, THEN conjunct2, THEN conjunct2, THEN conjunct2,
      THEN conjunct1] g s r
  obtain p4 where 7: "getPeer (handleAnswer ?r2 aliceAwaitingAnswer ''bob'' ?ans) ''bob'' = Some p4"
    "remoteDescription (connection p4) = Some ?ans"
    "appliedCandidates (connection p4) =
       appliedCandidates (connection p) @
       takeWhile (\<lambda>x. \<not> rejects ?r2 ''bob'' (AddIceCandidate x)) (pendingCandidates p)"
    "pendingCandidates p4 = pendingCandidates p"
    by auto
  from candidates_buffered_then_drained [where m = aliceAwaitingAnswer and peerId = "''bob''"
      and p = p and env = ?r2 and sdp = ?off,
      THEN conjunct2, THEN conjunct2, THEN conjunct2, THEN conjunct2, THEN conjunct2, THEN conjunct2,
      THEN conjunct2] g s po r
  obtain p5 where 8: "getPeer (handleOffer ?r2 aliceAwaitingAnswer ''bob'' ?off) ''bob'' = Some p5"
    "remoteDescription (connection p5) = Some ?off"
    "appliedCandidates (connection p5) =
       appliedCandidates (connection p) @
       takeWhile (\<lambda>x. \<not> rejects ?r2 ''bob'' (AddIceCandidate x)) (pendingCandidates p)"
    "pendingCandidates p5 = pendingCandidates p"
    by auto
  from 1 pc have A: "map_option pendingCandidates
     (getPeer (handleIceCandidate quietEnvironment aliceAwaitingAnswer ''bob'' (Some ''c3'')) ''bob'')
     = Some [''c1'', ''c2'', ''c3'']"
    by simp
  from 2 3 9 4 5 pc ac have B: "\<exists>p'. getPeer ?m1 ''bob'' = Some p' \<and>
         appliedCandidates (connection p') = [''c1'', ''c2''] \<and> pendingCandidates p' = [] \<and>
         map_option (appliedCandidates \<circ> connection)
           (getPeer (handleIceCandidate quietEnvironment ?m1 ''bob'' (Some ''c3'')) ''bob'')
           = Some [''c1'', ''c2'', ''c3''] \<and>
         getPeer (handleIceCandidate ?r3 ?m1 ''bob'' (Some ''c3'')) ''bob'' = Some p' \<and>
         map_option pendingCandidates (getPeer (step ?r3 ?m1 ?e) ''bob'') = Some []"
    by simp
  from 6 pc ac have C: "\<exists>p'. getPeer (handleOffer quietEnvironment aliceAwaitingAnswer ''bob'' ?off) ''bob'' = Some p' \<and>
         appliedCandidates (connection p') = [''c1'', ''c2''] \<and> pendingCandidates p' = []"
    by simp
  from 7 pc ac r(3) have D: "\<exists>p'. getPeer (handleAnswer ?r2 aliceAwaitingAnswer ''bob'' ?ans) ''bob'' = Some p' \<and>
         remoteDescription (connection p') = Some ?ans \<and>
         appliedCandidates (connection p') = [''c1''] \<and> pendingCandidates p' = [''c1'', ''c2'']"
    by simp
  from 8 pc ac r(3) have E: "\<exists>p'. getPeer (handleOffer ?r2 aliceAwaitingAnswer ''bob'' ?off) ''bob'' = Some p' \<and>
         remoteDescription (connection p') = Some ?off \<and>
         appliedCandidates (connection p') = [''c1''] \<and> pendingCandidates p' = [''c1'', ''c2'']"
    by simp
  from 0 A B C D E show ?thesis by blast
qed

end
